theory Spec2Isabelle
  imports Main "HOL-Library.Word" "HOL-Library.Sublist"
begin

section \<open>Native messaging host (http-server-host.py): data\<close>

text \<open>
  Bytes are 8-bit words.  A Python \<open>str\<close> is a sequence of Unicode code points, a
  \<open>bytes\<close> object a sequence of bytes; \<open>ustr\<close> turns an ASCII literal of the source
  into the \<open>str\<close> it denotes.
\<close>

type_synonym byte = "8 word"
type_synonym pystr = "nat list"

definition ustr :: "string \<Rightarrow> pystr" where
  "ustr s = map of_char s"

definition byte_of :: "nat \<Rightarrow> byte" where
  "byte_of n = of_nat n"

text \<open>
  Exceptions.  \<open>Exception m\<close> is the \<open>raise Exception(m)\<close> of the source; the others are
  raised by the standard library.  Only the class is kept for those: the text of
  \<open>str(e)\<close> is the library's.
\<close>

datatype exc =
    Exception pystr
  | StructError
  | UnicodeDecodeError
  | UnicodeEncodeError
  | JSONDecodeError
  | AttributeError
  | TypeError
  | ValueError
  | OverflowError
  | BrokenPipeError
  | RecursionError

subsection \<open>struct.pack('@I', n) and struct.unpack('@I', b)\<close>

text \<open>
  \<open>@I\<close> is the platform's unsigned int in native byte order: four bytes, least
  significant first on a little-endian machine.  The byte order is a parameter.
  \<open>struct.pack\<close> raises \<open>struct.error\<close> for a value above \<open>2^32 - 1\<close>,
  \<open>struct.unpack\<close> for a buffer that is not four bytes long.
\<close>

datatype byteorder = LittleEndian | BigEndian

definition le_bytes :: "nat \<Rightarrow> byte list" where
  "le_bytes n = [byte_of n, byte_of (n div 256), byte_of (n div 65536), byte_of (n div 16777216)]"

definition pack_I :: "byteorder \<Rightarrow> nat \<Rightarrow> exc + byte list" where
  "pack_I bo n =
     (if n < 2 ^ 32
      then Inr (case bo of LittleEndian \<Rightarrow> le_bytes n | BigEndian \<Rightarrow> rev (le_bytes n))
      else Inl StructError)"

fun le_value :: "byte list \<Rightarrow> exc + nat" where
  "le_value [a, b, c, d] = Inr (unat a + 256 * unat b + 65536 * unat c + 16777216 * unat d)"
| "le_value _ = Inl StructError"

definition unpack_I :: "byteorder \<Rightarrow> byte list \<Rightarrow> exc + nat" where
  "unpack_I bo bs = (case bo of LittleEndian \<Rightarrow> le_value bs | BigEndian \<Rightarrow> le_value (rev bs))"

subsection \<open>The UTF-8 codec: str.encode('utf-8') and bytes.decode('utf-8', errors)\<close>

text \<open>
  One code point to its UTF-8 bytes.  The surrogates \<open>D800..DFFF\<close> have no encoding
  (\<open>UnicodeEncodeError\<close>); a \<open>str\<close> holds no code point above \<open>10FFFF\<close>.
\<close>

definition cont_byte :: "nat \<Rightarrow> byte" where
  "cont_byte n = byte_of (128 + n mod 64)"

definition encode_cp :: "nat \<Rightarrow> exc + byte list" where
  "encode_cp c =
     (if c < 128 then Inr [byte_of c]
      else if c < 2048 then Inr [byte_of (192 + c div 64), cont_byte c]
      else if c < 65536 then
        (if 55296 \<le> c \<and> c \<le> 57343 then Inl UnicodeEncodeError
         else Inr [byte_of (224 + c div 4096), cont_byte (c div 64), cont_byte c])
      else if c < 1114112 then
        Inr [byte_of (240 + c div 262144), cont_byte (c div 4096), cont_byte (c div 64), cont_byte c]
      else Inl UnicodeEncodeError)"

fun utf8_encode :: "pystr \<Rightarrow> exc + byte list" where
  "utf8_encode [] = Inr []"
| "utf8_encode (c # cs) =
     (case encode_cp c of
        Inl e \<Rightarrow> Inl e
      | Inr bs \<Rightarrow> (case utf8_encode cs of Inl e \<Rightarrow> Inl e | Inr rest \<Rightarrow> Inr (bs @ rest)))"

text \<open>
  One step of the decoder at the head of a non-empty input: either a code point and the
  number of bytes it took, or an error and the number of bytes the error covers (the
  bytes read so far that cannot start a well-formed sequence; the whole rest when the
  input ends inside a sequence).  The ranges of the second byte exclude overlong forms,
  surrogates and values above \<open>10FFFF\<close>.
\<close>

datatype utf8_step = Scalar nat nat | Malformed nat

definition is_cont :: "byte \<Rightarrow> bool" where
  "is_cont b = (128 \<le> unat b \<and> unat b \<le> 191)"

definition second_ok :: "nat \<Rightarrow> byte \<Rightarrow> bool" where
  "second_ok b0 b1 =
     (let lo = (if b0 = 224 then 160 else if b0 = 240 then 144 else 128);
          hi = (if b0 = 237 then 159 else if b0 = 244 then 143 else 191)
      in lo \<le> unat b1 \<and> unat b1 \<le> hi)"

definition cbits :: "byte \<Rightarrow> nat" where
  "cbits b = unat b - 128"

fun decode_step :: "byte list \<Rightarrow> utf8_step" where
  "decode_step [] = Malformed 0"
| "decode_step (b # bs) =
     (let b0 = unat b in
      if b0 < 128 then Scalar b0 1
      else if b0 < 194 then Malformed 1
      else if b0 < 224 then
        (case bs of
           [] \<Rightarrow> Malformed 1
         | b1 # _ \<Rightarrow> if is_cont b1 then Scalar ((b0 - 192) * 64 + cbits b1) 2 else Malformed 1)
      else if b0 < 240 then
        (case bs of
           [] \<Rightarrow> Malformed 1
         | b1 # bs1 \<Rightarrow>
             if \<not> second_ok b0 b1 then Malformed 1
             else (case bs1 of
                     [] \<Rightarrow> Malformed 2
                   | b2 # _ \<Rightarrow>
                       if is_cont b2
                       then Scalar ((b0 - 224) * 4096 + cbits b1 * 64 + cbits b2) 3
                       else Malformed 2))
      else if b0 < 245 then
        (case bs of
           [] \<Rightarrow> Malformed 1
         | b1 # bs1 \<Rightarrow>
             if \<not> second_ok b0 b1 then Malformed 1
             else (case bs1 of
                     [] \<Rightarrow> Malformed 2
                   | b2 # bs2 \<Rightarrow>
                       if \<not> is_cont b2 then Malformed 2
                       else (case bs2 of
                               [] \<Rightarrow> Malformed 3
                             | b3 # _ \<Rightarrow>
                                 if is_cont b3
                                 then Scalar ((b0 - 240) * 262144 + cbits b1 * 4096
                                              + cbits b2 * 64 + cbits b3) 4
                                 else Malformed 3)))
      else Malformed 1)"

lemma decode_step_Scalar_bounds:
  "decode_step bs = Scalar c n \<Longrightarrow> 0 < n \<and> n \<le> length bs"
  by (cases bs) (auto simp: Let_def split: if_splits list.splits)

lemma decode_step_Malformed_bounds:
  "bs \<noteq> [] \<Longrightarrow> decode_step bs = Malformed n \<Longrightarrow> 0 < n \<and> n \<le> length bs"
  by (cases bs) (auto simp: Let_def split: if_splits list.splits)

text \<open>
  \<open>errors='strict'\<close> (the default) raises \<open>UnicodeDecodeError\<close> at the first malformed
  sequence; \<open>errors='ignore'\<close> skips the bytes of the error and goes on.
\<close>

datatype errors_mode = Strict | Ignore

function utf8_decode :: "errors_mode \<Rightarrow> byte list \<Rightarrow> exc + pystr" where
  "utf8_decode m bs =
     (if bs = [] then Inr []
      else (case decode_step bs of
              Scalar c n \<Rightarrow>
                (case utf8_decode m (drop n bs) of Inl e \<Rightarrow> Inl e | Inr cs \<Rightarrow> Inr (c # cs))
            | Malformed n \<Rightarrow>
                (case m of Strict \<Rightarrow> Inl UnicodeDecodeError
                         | Ignore \<Rightarrow> utf8_decode m (drop n bs))))"
  by pat_completeness auto
termination
proof (relation "measure (\<lambda>(m, bs). length bs)", goal_cases)
  case 1
  show ?case by simp
next
  case (2 m bs c n)
  then show ?case
    using decode_step_Scalar_bounds [of bs c n] by simp
next
  case (3 m bs n)
  then show ?case
    using decode_step_Malformed_bounds [of bs n] by simp
qed

declare utf8_decode.simps [simp del]

subsection \<open>JSON values and the library functions taken as parameters\<close>

text \<open>
  What \<open>json.loads\<close> returns and \<open>json.dumps\<close> takes.  A \<open>dict\<close> is an association
  list with distinct keys, in insertion order; a float is its 64 bits.
\<close>

datatype json =
    JNull
  | JBool bool
  | JInt int
  | JFloat "64 word"
  | JStr pystr
  | JArr "json list"
  | JObj "(pystr \<times> json) list"

text \<open>
  The functions of the standard library whose text format is not part of this program
  are parameters of the model: \<open>json.loads\<close>, \<open>json.dumps\<close> (with its \<open>ensure_ascii\<close>
  flag), \<open>str(e)\<close> of an exception the library raised, the text of a value that is not
  a \<open>str\<close> inside an f-string, and the integer a float is formatted as by \<open>%d\<close>
  (none for nan and the infinities).
\<close>

record pylib =
  json_loads :: "pystr \<Rightarrow> exc + json"
  json_dumps :: "bool \<Rightarrow> json \<Rightarrow> pystr"
  exc_text :: "exc \<Rightarrow> pystr"
  value_text :: "json \<Rightarrow> pystr"
  float_trunc :: "64 word \<Rightarrow> int option"

definition str_exc :: "pylib \<Rightarrow> exc \<Rightarrow> pystr" where
  "str_exc L e = (case e of Exception m \<Rightarrow> m | _ \<Rightarrow> exc_text L e)"

definition format_value :: "pylib \<Rightarrow> json \<Rightarrow> pystr" where
  "format_value L v = (case v of JStr s \<Rightarrow> s | _ \<Rightarrow> value_text L v)"

text \<open>\<open>d.get(k, default)\<close>; on a value that is no \<open>dict\<close> the attribute is missing.\<close>

definition dict_get :: "json \<Rightarrow> string \<Rightarrow> json \<Rightarrow> exc + json" where
  "dict_get d k dflt =
     (case d of
        JObj kvs \<Rightarrow> (case map_of kvs (ustr k) of Some v \<Rightarrow> Inr v | None \<Rightarrow> Inr dflt)
      | _ \<Rightarrow> Inl AttributeError)"

subsection \<open>The duplex channel: sys.stdin.buffer and sys.stdout.buffer\<close>

text \<open>
  \<open>stdin\<close> holds the bytes the peer sends before it closes the pipe that have not been
  read yet: a blocking \<open>read(n)\<close> returns fewer than \<open>n\<close> bytes only at end of file.
  \<open>stdout\<close> holds what has been written and flushed; once the peer has closed its end
  (\<open>stdout_open\<close> false) a write raises \<open>BrokenPipeError\<close>.
\<close>

record channel =
  stdin :: "byte list"
  stdout :: "byte list"
  stdout_open :: bool

definition read_bytes :: "nat \<Rightarrow> channel \<Rightarrow> byte list \<times> channel" where
  "read_bytes n ch = (take n (stdin ch), ch\<lparr>stdin := drop n (stdin ch)\<rparr>)"

text \<open>
  The three statements that send a frame (lines 107-109 and 218-220):
  the packed length, the payload, the flush.
\<close>

definition write_frame :: "byteorder \<Rightarrow> byte list \<Rightarrow> channel \<Rightarrow> exc + channel" where
  "write_frame bo encoded ch =
     (case pack_I bo (length encoded) of
        Inl e \<Rightarrow> Inl e
      | Inr header \<Rightarrow>
          if stdout_open ch then Inr (ch\<lparr>stdout := stdout ch @ header @ encoded\<rparr>)
          else Inl BrokenPipeError)"

text \<open>The read of a response in \<open>send_to_extension\<close> (lines 112-123).\<close>

definition read_response :: "byteorder \<Rightarrow> channel \<Rightarrow> (exc + pystr) \<times> channel" where
  "read_response bo ch =
     (case read_bytes 4 ch of (text_length_bytes, ch1) \<Rightarrow>
        if length text_length_bytes < 4
        then (Inl (Exception (ustr ''Failed to read response length from extension'')), ch1)
        else (case unpack_I bo text_length_bytes of
                Inl e \<Rightarrow> (Inl e, ch1)
              | Inr text_length \<Rightarrow>
                  (case read_bytes text_length ch1 of (response_bytes, ch2) \<Rightarrow>
                     if length response_bytes < text_length
                     then (Inl (Exception
                                 (ustr ''Failed to read complete response from extension'')), ch2)
                     else (utf8_decode Strict response_bytes, ch2))))"

text \<open>
  \<open>send_to_extension\<close>: every exception of the body is caught and turned into the 503
  envelope, so the function always returns a value.
\<close>

definition communication_error :: "pylib \<Rightarrow> exc \<Rightarrow> json" where
  "communication_error L e =
     JObj [(ustr ''status'', JInt 503),
           (ustr ''body'',
            JObj [(ustr ''error'', JStr (ustr ''Extension communication error: '' @ str_exc L e))])]"

definition send_to_extension :: "pylib \<Rightarrow> byteorder \<Rightarrow> json \<Rightarrow> channel \<Rightarrow> json \<times> channel" where
  "send_to_extension L bo data ch =
     (case utf8_encode (json_dumps L True data) of
        Inl e \<Rightarrow> (communication_error L e, ch)
      | Inr encoded \<Rightarrow>
          (case write_frame bo encoded ch of
             Inl e \<Rightarrow> (communication_error L e, ch)
           | Inr ch1 \<Rightarrow>
               (case read_response bo ch1 of
                  (Inl e, ch2) \<Rightarrow> (communication_error L e, ch2)
                | (Inr response, ch2) \<Rightarrow>
                    (case json_loads L response of
                       Inl e \<Rightarrow> (communication_error L e, ch2)
                     | Inr v \<Rightarrow> (v, ch2)))))"

section \<open>NativeMessagingHost\<close>

text \<open>
  The object holds the handle of the listener thread (\<open>http_server\<close> is never assigned
  and is left out).  What the operating system knows is the \<open>world\<close>: the clock in
  milliseconds, the ports with a listening socket, the threads that are alive, and the
  number of threads started so far (the next thread identifier).
\<close>

record host =
  server_thread :: "nat option"
  running :: bool

record world =
  now_ms :: int
  ports_in_use :: "int list"
  alive :: "nat list"
  spawned :: nat

definition init_host :: host where
  "init_host = \<lparr>server_thread = None, running = False\<rparr>"

text \<open>
  \<open>run_server\<close>, the body of the thread \<open>tid\<close>: it binds the port and serves for ever,
  or the bind raises, the exception is logged and \<open>sys.exit(1)\<close> ends the thread.
  The bind succeeds on a free port of the range; port 0 asks for any free port.
\<close>

definition port_number :: "json \<Rightarrow> int option" where
  "port_number v =
     (case v of JInt p \<Rightarrow> Some p | JBool b \<Rightarrow> Some (if b then 1 else 0) | _ \<Rightarrow> None)"

definition run_server :: "json \<Rightarrow> nat \<Rightarrow> world \<Rightarrow> world" where
  "run_server port tid w =
     (case port_number port of
        None \<Rightarrow> w
      | Some p \<Rightarrow>
          if p = 0 then w\<lparr>alive := tid # alive w\<rparr>
          else if 0 < p \<and> p \<le> 65535 \<and> p \<notin> set (ports_in_use w)
          then w\<lparr>ports_in_use := p # ports_in_use w, alive := tid # alive w\<rparr>
          else w)"

definition is_alive :: "world \<Rightarrow> nat option \<Rightarrow> bool" where
  "is_alive w t = (case t of None \<Rightarrow> False | Some tid \<Rightarrow> tid \<in> set (alive w))"

text \<open>
  \<open>start_http_server\<close>: nothing to do when the thread is alive; otherwise a new thread
  is started, and after the pause of half a second the result is whether it is alive.
\<close>

definition start_http_server :: "host \<Rightarrow> world \<Rightarrow> json \<Rightarrow> bool \<times> host \<times> world" where
  "start_http_server h w port =
     (if is_alive w (server_thread h) then (True, h, w)
      else
        (let tid = spawned w;
             h1 = h\<lparr>server_thread := Some tid\<rparr>;
             w1 = run_server port tid (w\<lparr>spawned := Suc tid\<rparr>)
         in (is_alive w1 (server_thread h1), h1, w1)))"

text \<open>\<open>stop_http_server\<close> writes a log line and nothing else.\<close>

definition stop_http_server :: "host \<Rightarrow> world \<Rightarrow> host \<times> world" where
  "stop_http_server h w = (h, w)"

text \<open>
  \<open>handle_message\<close>.  \<open>message_type == 'start_server'\<close> holds for the \<open>str\<close> with these
  characters only.
\<close>

definition handle_message ::
  "pylib \<Rightarrow> host \<Rightarrow> world \<Rightarrow> json \<Rightarrow> exc + (json \<times> host \<times> world)" where
  "handle_message L h w data =
     (case dict_get data ''type'' (JStr []) of
        Inl e \<Rightarrow> Inl e
      | Inr message_type \<Rightarrow>
          if message_type = JStr (ustr ''start_server'') then
            (case dict_get data ''port'' (JInt 8765) of
               Inl e \<Rightarrow> Inl e
             | Inr port \<Rightarrow>
                 (case start_http_server h w port of (success, h1, w1) \<Rightarrow>
                    Inr (JObj [(ustr ''type'', JStr (ustr ''server_started'')),
                               (ustr ''success'', JBool success),
                               (ustr ''port'', port)], h1, w1)))
          else if message_type = JStr (ustr ''stop_server'') then
            (case stop_http_server h w of (h1, w1) \<Rightarrow>
               Inr (JObj [(ustr ''type'', JStr (ustr ''server_stopped'')),
                          (ustr ''success'', JBool True)], h1, w1))
          else if message_type = JStr (ustr ''ping'') then
            Inr (JObj [(ustr ''type'', JStr (ustr ''pong'')),
                       (ustr ''timestamp'', JInt (now_ms w))], h, w)
          else
            Inr (JObj [(ustr ''type'', JStr (ustr ''unknown'')),
                       (ustr ''error'',
                        JStr (ustr ''Unknown message type: '' @ format_value L message_type))],
                 h, w))"

text \<open>
  The inner \<open>try\<close> of the loop (lines 200-214): the response to one decoded message.
\<close>

definition error_response :: "pystr \<Rightarrow> json" where
  "error_response detail =
     JObj [(ustr ''type'', JStr (ustr ''error'')), (ustr ''error'', JStr detail)]"

definition respond :: "pylib \<Rightarrow> host \<Rightarrow> world \<Rightarrow> pystr \<Rightarrow> json \<times> host \<times> world" where
  "respond L h w message =
     (case json_loads L message of
        Inl e \<Rightarrow>
          (if e = JSONDecodeError then (error_response (ustr ''Invalid JSON format''), h, w)
           else (error_response (str_exc L e), h, w))
      | Inr data \<Rightarrow>
          (case handle_message L h w data of
             Inl e \<Rightarrow> (error_response (str_exc L e), h, w)
           | Inr r \<Rightarrow> r))"

text \<open>
  One turn of the \<open>while\<close> loop: \<open>Exit Break\<close> at the two \<open>break\<close> statements,
  \<open>Exit (Raised e)\<close> when an exception reaches the outer \<open>except\<close>, \<open>Next\<close> when the
  response has been written and the loop goes on.
\<close>

datatype loop_exit = Break | Raised exc

datatype turn = Next host world channel | Exit loop_exit host world channel

definition loop_turn :: "pylib \<Rightarrow> byteorder \<Rightarrow> host \<Rightarrow> world \<Rightarrow> channel \<Rightarrow> turn" where
  "loop_turn L bo h w ch =
     (case read_bytes 4 ch of (text_length_bytes, ch1) \<Rightarrow>
        if length text_length_bytes < 4 then Exit Break h w ch1
        else (case unpack_I bo text_length_bytes of
                Inl e \<Rightarrow> Exit (Raised e) h w ch1
              | Inr text_length \<Rightarrow>
                  (case read_bytes text_length ch1 of (message_bytes, ch2) \<Rightarrow>
                     if length message_bytes < text_length then Exit Break h w ch2
                     else (case utf8_decode Strict message_bytes of
                             Inl e \<Rightarrow> Exit (Raised e) h w ch2
                           | Inr message \<Rightarrow>
                               (case respond L h w message of (response, h1, w1) \<Rightarrow>
                                  (case utf8_encode (json_dumps L True response) of
                                     Inl e \<Rightarrow> Exit (Raised e) h1 w1 ch2
                                   | Inr encoded_response \<Rightarrow>
                                       (case write_frame bo encoded_response ch2 of
                                          Inl e \<Rightarrow> Exit (Raised e) h1 w1 ch2
                                        | Inr ch3 \<Rightarrow> Next h1 w1 ch3)))))))"

lemma write_frame_stdin: "write_frame bo enc ch = Inr ch' \<Longrightarrow> stdin ch' = stdin ch"
  by (auto simp: write_frame_def split: sum.splits if_splits)

lemma loop_turn_Next_shorter:
  "loop_turn L bo h w ch = Next h1 w1 ch1 \<Longrightarrow> length (stdin ch1) < length (stdin ch)"
  by (auto simp: loop_turn_def read_bytes_def dest!: write_frame_stdin
           split: if_splits sum.splits prod.splits)

function message_loop ::
  "pylib \<Rightarrow> byteorder \<Rightarrow> host \<Rightarrow> world \<Rightarrow> channel \<Rightarrow> loop_exit \<times> host \<times> world \<times> channel" where
  "message_loop L bo h w ch =
     (case loop_turn L bo h w ch of
        Exit x h1 w1 ch1 \<Rightarrow> (x, h1, w1, ch1)
      | Next h1 w1 ch1 \<Rightarrow> message_loop L bo h1 w1 ch1)"
  by pat_completeness auto
termination
proof (relation "measure (\<lambda>(L, bo, h, w, ch). length (stdin ch))", goal_cases)
  case 1
  show ?case by simp
next
  case (2 L bo h w ch h1 w1 ch1)
  then show ?case
    using loop_turn_Next_shorter [of L bo h w ch h1 w1 ch1] by simp
qed

declare message_loop.simps [simp del]

text \<open>
  \<open>run_native_messaging_loop\<close>: \<open>running\<close> is set, the loop runs while it holds (nothing
  in the loop clears it), and the \<open>finally\<close> clause clears it and calls
  \<open>stop_http_server\<close>.
\<close>

definition run_native_messaging_loop ::
  "pylib \<Rightarrow> byteorder \<Rightarrow> host \<Rightarrow> world \<Rightarrow> channel \<Rightarrow> loop_exit \<times> host \<times> world \<times> channel" where
  "run_native_messaging_loop L bo h w ch =
     (case message_loop L bo (h\<lparr>running := True\<rparr>) w ch of (x, h1, w1, ch1) \<Rightarrow>
        (case stop_http_server (h1\<lparr>running := False\<rparr>) w1 of (h2, w2) \<Rightarrow> (x, h2, w2, ch1)))"

section \<open>ChatGPTAPIHandler\<close>

text \<open>
  A request as the handler sees it: the path, the header lines in the order received,
  and \<open>rfile\<close>, the bytes the client sends after the headers before it stops sending.
  A response is the status code passed to \<open>send_response\<close>, the headers passed to
  \<open>send_header\<close> in order (the \<open>Server\<close> and \<open>Date\<close> headers that \<open>send_response\<close>
  adds by itself are left out) and the bytes written to \<open>wfile\<close>.
\<close>

record request =
  path :: pystr
  headers :: "(pystr \<times> pystr) list"
  rfile :: "byte list"

record response =
  status :: int
  response_headers :: "(pystr \<times> pystr) list"
  body :: "byte list"

text \<open>
  \<open>self.headers.get(name, default)\<close>: the first header whose name matches without
  regard to case.  \<open>dict(self.headers)\<close>: every header name as received, each with the
  value \<open>self.headers[name]\<close>, a repeated name kept once.
\<close>

definition lower_ascii :: "nat \<Rightarrow> nat" where
  "lower_ascii c = (if 65 \<le> c \<and> c \<le> 90 then c + 32 else c)"

definition header_get :: "(pystr \<times> pystr) list \<Rightarrow> pystr \<Rightarrow> pystr option" where
  "header_get hs name =
     map_of (map (\<lambda>(k, v). (map lower_ascii k, v)) hs) (map lower_ascii name)"

fun dict_set :: "(pystr \<times> json) list \<Rightarrow> pystr \<Rightarrow> json \<Rightarrow> (pystr \<times> json) list" where
  "dict_set [] k v = [(k, v)]"
| "dict_set ((k', v') # kvs) k v =
     (if k' = k then (k, v) # kvs else (k', v') # dict_set kvs k v)"

definition headers_dict :: "(pystr \<times> pystr) list \<Rightarrow> json" where
  "headers_dict hs =
     JObj (foldl (\<lambda>d (k, _). dict_set d k (JStr (case header_get hs k of Some v \<Rightarrow> v | None \<Rightarrow> [])))
                 [] hs)"

text \<open>
  \<open>int(s)\<close> for a \<open>str\<close>: surrounding white space is dropped, then an optional sign and
  decimal digits, single underscores allowed between digits; anything else raises
  \<open>ValueError\<close>.  (A header value holds characters below 256 only, where the decimal
  digits are the ASCII ones; the limit on the number of digits is not modelled.)
\<close>

definition is_space :: "nat \<Rightarrow> bool" where
  "is_space c = (c \<in> {9, 10, 11, 12, 13, 28, 29, 30, 31, 32, 133, 160})"

definition strip :: "pystr \<Rightarrow> pystr" where
  "strip s = rev (dropWhile is_space (rev (dropWhile is_space s)))"

fun digits_value :: "pystr \<Rightarrow> nat \<Rightarrow> bool \<Rightarrow> nat option" where
  "digits_value [] acc after_digit = (if after_digit then Some acc else None)"
| "digits_value (c # cs) acc after_digit =
     (if 48 \<le> c \<and> c \<le> 57 then digits_value cs (acc * 10 + (c - 48)) True
      else if c = 95 \<and> after_digit then digits_value cs acc False
      else None)"

definition py_int :: "pystr \<Rightarrow> exc + int" where
  "py_int s =
     (case strip s of
        [] \<Rightarrow> Inl ValueError
      | c # cs \<Rightarrow>
          if c = 45 then (case digits_value cs 0 False of
                            None \<Rightarrow> Inl ValueError | Some n \<Rightarrow> Inr (- int n))
          else if c = 43 then (case digits_value cs 0 False of
                                 None \<Rightarrow> Inl ValueError | Some n \<Rightarrow> Inr (int n))
          else (case digits_value (c # cs) 0 False of
                  None \<Rightarrow> Inl ValueError | Some n \<Rightarrow> Inr (int n)))"

text \<open>
  \<open>self.rfile.read(n)\<close>: everything up to end of file for a negative \<open>n\<close>, at most \<open>n\<close>
  bytes otherwise; \<open>OverflowError\<close> for an \<open>n\<close> beyond the largest index.
\<close>

definition rfile_read :: "int \<Rightarrow> byte list \<Rightarrow> exc + byte list" where
  "rfile_read n bs =
     (if n < 0 then Inr bs
      else if n > 2 ^ 63 - 1 then Inl OverflowError
      else Inr (take (nat n) bs))"

text \<open>\<open>str(n)\<close> for a length: its decimal digits.\<close>

function decimal :: "nat \<Rightarrow> pystr" where
  "decimal n = (if n < 10 then [48 + n] else decimal (n div 10) @ [48 + n mod 10])"
  by pat_completeness auto
termination
  by (relation "measure id") auto

declare decimal.simps [simp del]

text \<open>
  The status passed to \<open>send_response\<close> is formatted with \<open>%d\<close>: an \<open>int\<close> (or \<open>bool\<close>)
  as it is, a float truncated, anything else raises \<open>TypeError\<close>.
\<close>

definition status_code_of :: "pylib \<Rightarrow> json \<Rightarrow> exc + int" where
  "status_code_of L v =
     (case v of
        JInt n \<Rightarrow> Inr n
      | JBool b \<Rightarrow> Inr (if b then 1 else 0)
      | JFloat f \<Rightarrow> (case float_trunc L f of Some n \<Rightarrow> Inr n | None \<Rightarrow> Inl ValueError)
      | _ \<Rightarrow> Inl TypeError)"

definition cors_headers :: "(pystr \<times> pystr) list" where
  "cors_headers =
     [(ustr ''Access-Control-Allow-Origin'', ustr ''*''),
      (ustr ''Access-Control-Allow-Methods'', ustr ''GET, POST, PUT, DELETE, OPTIONS''),
      (ustr ''Access-Control-Allow-Headers'', ustr ''Content-Type, Authorization'')]"


text \<open>
  \<open>send_json_response\<close>: the body is serialised and encoded first, so an exception there
  or in \<open>send_response\<close> leaves nothing written.
\<close>

definition send_json_response :: "pylib \<Rightarrow> json \<Rightarrow> json \<Rightarrow> exc + response" where
  "send_json_response L status_code data =
     (case utf8_encode (json_dumps L False data) of
        Inl e \<Rightarrow> Inl e
      | Inr response_body \<Rightarrow>
          (case status_code_of L status_code of
             Inl e \<Rightarrow> Inl e
           | Inr code \<Rightarrow>
               Inr \<lparr>status = code,
                    response_headers =
                      [(ustr ''Content-Type'', ustr ''application/json; charset=utf-8'')]
                      @ cors_headers
                      @ [(ustr ''Content-Length'', decimal (length response_body))],
                    body = response_body\<rparr>))"


text \<open>
  Line 64 (and 82): the envelope's \<open>status\<close> and \<open>body\<close>, with their defaults, passed to
  \<open>send_json_response\<close>.  Lines 66-68 (and 84-86): the \<open>except\<close> clause of the handlers.
\<close>

definition reply_envelope :: "pylib \<Rightarrow> json \<Rightarrow> exc + response" where
  "reply_envelope L envelope =
     (case dict_get envelope ''status'' (JInt 200) of
        Inl e \<Rightarrow> Inl e
      | Inr st \<Rightarrow>
          (case dict_get envelope ''body'' (JObj []) of
             Inl e \<Rightarrow> Inl e
           | Inr bd \<Rightarrow> send_json_response L st bd))"

definition reply_exception :: "pylib \<Rightarrow> exc \<Rightarrow> exc + response" where
  "reply_exception L e =
     send_json_response L (JInt 500) (JObj [(ustr ''error'', JStr (str_exc L e))])"

definition request_envelope :: "string \<Rightarrow> request \<Rightarrow> pystr \<Rightarrow> json" where
  "request_envelope method req body_text =
     JObj [(ustr ''type'', JStr (ustr ''http_request'')),
           (ustr ''method'', JStr (ustr method)),
           (ustr ''path'', JStr (path req)),
           (ustr ''headers'', headers_dict (headers req)),
           (ustr ''body'', JStr body_text)]"

text \<open>
  \<open>do_POST\<close>.  The two statements before the \<open>try\<close> (lines 47-48) are outside it: an
  exception there leaves the handler with no response written (\<open>Inl\<close>).
\<close>

definition do_POST ::
  "pylib \<Rightarrow> byteorder \<Rightarrow> request \<Rightarrow> channel \<Rightarrow> (exc + response) \<times> channel" where
  "do_POST L bo req ch =
     (case (case header_get (headers req) (ustr ''Content-Length'') of
              None \<Rightarrow> Inr 0 | Some v \<Rightarrow> py_int v) of
        Inl e \<Rightarrow> (Inl e, ch)
      | Inr content_length \<Rightarrow>
          (case rfile_read content_length (rfile req) of
             Inl e \<Rightarrow> (Inl e, ch)
           | Inr post_data \<Rightarrow>
               (case utf8_decode Ignore post_data of
                  Inl e \<Rightarrow> (reply_exception L e, ch)
                | Inr body_text \<Rightarrow>
                    (case send_to_extension L bo (request_envelope ''POST'' req body_text) ch of
                       (envelope, ch1) \<Rightarrow>
                         (case reply_envelope L envelope of
                            Inl e \<Rightarrow> (reply_exception L e, ch1)
                          | Inr r \<Rightarrow> (Inr r, ch1))))))"


section \<open>Two threads on one stream\<close>

text \<open>
  The loop runs on the main thread; the handlers of the HTTP requests run, one request
  at a time, on the thread that \<open>start_http_server\<close> starts, and call
  \<open>send_to_extension\<close>.  Both threads read \<open>sys.stdin.buffer\<close> and nothing in the
  program orders their reads.  A call of \<open>read\<close> is one step (the buffered reader holds
  its lock for the call); between two calls the other thread may run.

  The main thread is about to read a length (line 187) or a content of a known length
  (line 194), or the loop has ended.  The handler thread is about to send (line 106), to
  read the length of the response (line 112) or its content (line 117), or
  \<open>send_to_extension\<close> has returned.  The step of a thread runs it up to its next
  \<open>read\<close>.
\<close>

datatype main_pc = AtReadLength | AtReadContent nat | LoopEnded loop_exit

datatype handler_pc = AtSend json | AtResponseLength | AtResponseContent nat | Returned json

record threads =
  chan :: channel
  main_at :: main_pc
  main_host :: host
  os :: world
  handler_at :: handler_pc

definition main_step :: "pylib \<Rightarrow> byteorder \<Rightarrow> threads \<Rightarrow> threads" where
  "main_step L bo s =
     (case main_at s of
        AtReadLength \<Rightarrow>
          (case read_bytes 4 (chan s) of (text_length_bytes, ch1) \<Rightarrow>
             if length text_length_bytes < 4
             then s\<lparr>chan := ch1, main_at := LoopEnded Break\<rparr>
             else (case unpack_I bo text_length_bytes of
                     Inl e \<Rightarrow> s\<lparr>chan := ch1, main_at := LoopEnded (Raised e)\<rparr>
                   | Inr text_length \<Rightarrow> s\<lparr>chan := ch1, main_at := AtReadContent text_length\<rparr>))
      | AtReadContent text_length \<Rightarrow>
          (case read_bytes text_length (chan s) of (message_bytes, ch2) \<Rightarrow>
             if length message_bytes < text_length
             then s\<lparr>chan := ch2, main_at := LoopEnded Break\<rparr>
             else (case utf8_decode Strict message_bytes of
                     Inl e \<Rightarrow> s\<lparr>chan := ch2, main_at := LoopEnded (Raised e)\<rparr>
                   | Inr message \<Rightarrow>
                       (case respond L (main_host s) (os s) message of (response, h1, w1) \<Rightarrow>
                          (case utf8_encode (json_dumps L True response) of
                             Inl e \<Rightarrow> s\<lparr>chan := ch2, main_at := LoopEnded (Raised e),
                                         main_host := h1, os := w1\<rparr>
                           | Inr encoded_response \<Rightarrow>
                               (case write_frame bo encoded_response ch2 of
                                  Inl e \<Rightarrow> s\<lparr>chan := ch2, main_at := LoopEnded (Raised e),
                                              main_host := h1, os := w1\<rparr>
                                | Inr ch3 \<Rightarrow> s\<lparr>chan := ch3, main_at := AtReadLength,
                                               main_host := h1, os := w1\<rparr>)))))
      | LoopEnded x \<Rightarrow> s)"

definition handler_step :: "pylib \<Rightarrow> byteorder \<Rightarrow> threads \<Rightarrow> threads" where
  "handler_step L bo s =
     (case handler_at s of
        AtSend data \<Rightarrow>
          (case utf8_encode (json_dumps L True data) of
             Inl e \<Rightarrow> s\<lparr>handler_at := Returned (communication_error L e)\<rparr>
           | Inr encoded \<Rightarrow>
               (case write_frame bo encoded (chan s) of
                  Inl e \<Rightarrow> s\<lparr>handler_at := Returned (communication_error L e)\<rparr>
                | Inr ch1 \<Rightarrow> s\<lparr>chan := ch1, handler_at := AtResponseLength\<rparr>))
      | AtResponseLength \<Rightarrow>
          (case read_bytes 4 (chan s) of (text_length_bytes, ch1) \<Rightarrow>
             if length text_length_bytes < 4
             then s\<lparr>chan := ch1,
                    handler_at := Returned (communication_error L (Exception
                      (ustr ''Failed to read response length from extension'')))\<rparr>
             else (case unpack_I bo text_length_bytes of
                     Inl e \<Rightarrow> s\<lparr>chan := ch1, handler_at := Returned (communication_error L e)\<rparr>
                   | Inr text_length \<Rightarrow>
                       s\<lparr>chan := ch1, handler_at := AtResponseContent text_length\<rparr>))
      | AtResponseContent text_length \<Rightarrow>
          (case read_bytes text_length (chan s) of (response_bytes, ch2) \<Rightarrow>
             if length response_bytes < text_length
             then s\<lparr>chan := ch2,
                    handler_at := Returned (communication_error L (Exception
                      (ustr ''Failed to read complete response from extension'')))\<rparr>
             else (case utf8_decode Strict response_bytes of
                     Inl e \<Rightarrow> s\<lparr>chan := ch2, handler_at := Returned (communication_error L e)\<rparr>
                   | Inr response \<Rightarrow>
                       (case json_loads L response of
                          Inl e \<Rightarrow> s\<lparr>chan := ch2,
                                      handler_at := Returned (communication_error L e)\<rparr>
                        | Inr v \<Rightarrow> s\<lparr>chan := ch2, handler_at := Returned v\<rparr>)))
      | Returned v \<Rightarrow> s)"

text \<open>A schedule names the thread that takes each step.\<close>

datatype thread = MainThread | HandlerThread

fun run_threads :: "pylib \<Rightarrow> byteorder \<Rightarrow> thread list \<Rightarrow> threads \<Rightarrow> threads" where
  "run_threads L bo [] s = s"
| "run_threads L bo (t # ts) s =
     run_threads L bo ts (case t of MainThread \<Rightarrow> main_step L bo s
                                  | HandlerThread \<Rightarrow> handler_step L bo s)"

text \<open>
  A request arrives: the main thread waits for input, the handler thread is about to
  call \<open>send_to_extension\<close>.
\<close>

definition request_arrives :: "json \<Rightarrow> host \<Rightarrow> world \<Rightarrow> channel \<Rightarrow> threads" where
  "request_arrives data h w ch =
     \<lparr>chan = ch, main_at = AtReadLength, main_host = h, os = w, handler_at = AtSend data\<rparr>"

section \<open>A library instance for closed examples\<close>

text \<open>
  Every property below is proved for an arbitrary library \<open>L\<close>.  The closed examples
  need one: this instance knows the texts the examples use and nothing more.
\<close>

definition example_lib :: pylib where
  "example_lib =
     \<lparr>json_loads = (\<lambda>s. if s = ustr ''{}'' then Inr (JObj [])
                         else if s = ustr ''[1]'' then Inr (JArr [JInt 1])
                         else Inl JSONDecodeError),
      json_dumps = (\<lambda>ensure_ascii v. case v of JObj _ \<Rightarrow> ustr ''{}''
                                        | JArr _ \<Rightarrow> ustr ''[]''
                                        | _ \<Rightarrow> ustr ''null''),
      exc_text = (\<lambda>e. ustr ''error''),
      value_text = (\<lambda>v. ustr ''None''),
      float_trunc = (\<lambda>f. None)\<rparr>"

definition example_world :: world where
  "example_world = \<lparr>now_ms = 0, ports_in_use = [], alive = [], spawned = 0\<rparr>"

definition example_channel :: "byte list \<Rightarrow> channel" where
  "example_channel input = \<lparr>stdin = input, stdout = [], stdout_open = True\<rparr>"

text \<open>
  A second instance, whose \<open>json_dumps\<close> prints an object as the text of its first
  field when that is a \<open>str\<close>: the examples of the loop can then tell the replies
  apart by what is written.
\<close>

definition verbose_lib :: pylib where
  "verbose_lib =
     example_lib\<lparr>json_dumps := (\<lambda>ensure_ascii v. case v of
                                     JObj ((k, JStr t) # kvs) \<Rightarrow> t
                                   | _ \<Rightarrow> ustr ''null'')\<rparr>"

section \<open>Properties\<close>

subsection \<open>The length prefix\<close>

lemma split256: "(m::nat) = m mod 256 + 256 * (m div 256)"
  by simp

lemma unat_byte_of: "n < 256 \<Longrightarrow> unat (byte_of n) = n"
  by (simp add: byte_of_def unat_of_nat)

lemma unat_byte_of_mod: "unat (byte_of n) = n mod 256"
  by (simp add: byte_of_def unat_of_nat)

lemma le_value_le_bytes: "n < 2 ^ 32 \<Longrightarrow> le_value (le_bytes n) = Inr n"
proof -
  assume n: "n < 2 ^ 32"
  define q1 where "q1 = n div 256"
  define q2 where "q2 = q1 div 256"
  define q3 where "q3 = q2 div 256"
  have b: "n div 65536 = q2" "n div 16777216 = q3"
    by (simp_all add: q1_def q2_def q3_def div_mult2_eq)
  have a: "q3 < 256" using n unfolding b [symmetric] by (simp add: less_mult_imp_div_less)
  have "n = n mod 256 + 256 * q1" "q1 = q1 mod 256 + 256 * q2" "q2 = q2 mod 256 + 256 * q3"
    unfolding q1_def q2_def q3_def by (rule split256)+
  then have "n mod 256 + 256 * (q1 mod 256) + 65536 * (q2 mod 256) + 16777216 * q3 = n"
    by linarith
  with a show ?thesis by (simp add: le_bytes_def unat_byte_of_mod b q1_def [symmetric])
qed

lemma pack_I_length: "pack_I bo n = Inr bs \<Longrightarrow> length bs = 4"
  by (cases bo) (auto simp: pack_I_def le_bytes_def split: if_splits)

lemma pack_I_Inr_iff: "(\<exists>bs. pack_I bo n = Inr bs) \<longleftrightarrow> n < 2 ^ 32"
  by (simp add: pack_I_def)

lemma unpack_pack_I: "pack_I bo n = Inr bs \<Longrightarrow> unpack_I bo bs = Inr n"
  by (cases bo) (auto simp: pack_I_def unpack_I_def le_value_le_bytes split: if_splits)

subsection \<open>The UTF-8 codec\<close>

lemma unat_cont_byte: "unat (cont_byte n) = 128 + n mod 64"
proof -
  have "128 + n mod 64 < 256" using mod_less_divisor [of 64 n] by linarith
  then show ?thesis by (simp add: cont_byte_def unat_byte_of)
qed

lemma is_cont_cont_byte: "is_cont (cont_byte n)"
  using mod_less_divisor [of 64 n] by (simp add: is_cont_def unat_cont_byte)

lemma cbits_cont_byte: "cbits (cont_byte n) = n mod 64"
  by (simp add: cbits_def unat_cont_byte)

lemma decode_step_1: "c < 128 \<Longrightarrow> decode_step (byte_of c # rest) = Scalar c 1"
  by (simp add: unat_byte_of)

lemma decode_step_2:
  assumes "128 \<le> c" "c < 2048"
  shows "decode_step (byte_of (192 + c div 64) # cont_byte c # rest) = Scalar c 2"
proof -
  have a: "2 \<le> c div 64" "c div 64 < 32" using assms by simp_all
  then have u: "unat (byte_of (192 + c div 64)) = 192 + c div 64"
    by (intro unat_byte_of) simp
  have "c div 64 * 64 + c mod 64 = c" by simp
  with a show ?thesis
    by (simp add: u is_cont_cont_byte cbits_cont_byte)
qed

lemma decode_step_3:
  assumes "2048 \<le> c" "c < 65536" "\<not> (55296 \<le> c \<and> c \<le> 57343)"
  shows "decode_step (byte_of (224 + c div 4096) # cont_byte (c div 64) # cont_byte c # rest)
           = Scalar c 3"
proof -
  define a where "a = c div 4096"
  define b where "b = c div 64 mod 64"
  define d where "d = c mod 64"
  have bd: "b < 64" "d < 64" by (simp_all add: b_def d_def)
  have "c = 64 * (c div 64) + d" by (simp add: d_def)
  moreover have "c div 64 = 64 * (c div 64 div 64) + b" by (simp add: b_def)
  moreover have "c div 64 div 64 = a" by (simp add: a_def div_mult2_eq)
  ultimately have c: "c = 4096 * a + 64 * b + d" by linarith
  have a16: "a < 16" using assms c by linarith
  have u: "unat (byte_of (224 + a)) = 224 + a"
    using a16 by (intro unat_byte_of) simp
  have ub: "unat (cont_byte (c div 64)) = 128 + b"
    by (simp add: unat_cont_byte b_def)
  have lo: "a = 0 \<Longrightarrow> 32 \<le> b" using assms(1) c bd by linarith
  have hi: "a = 13 \<Longrightarrow> b \<le> 31" using assms(3) c bd by linarith
  have s: "second_ok (224 + a) (cont_byte (c div 64))"
    using lo hi bd a16 by (simp add: second_ok_def ub)
  have fin: "a * 4096 + b * 64 + d = c" using c by simp
  show ?thesis
    using a16 s fin
    by (simp add: a_def [symmetric] u is_cont_cont_byte cbits_cont_byte
        b_def [symmetric] d_def [symmetric])
qed

lemma decode_step_4:
  assumes "65536 \<le> c" "c < 1114112"
  shows "decode_step (byte_of (240 + c div 262144) # cont_byte (c div 4096) # cont_byte (c div 64)
            # cont_byte c # rest) = Scalar c 4"
proof -
  define a where "a = c div 262144"
  define b where "b = c div 4096 mod 64"
  define e where "e = c div 64 mod 64"
  define d where "d = c mod 64"
  have bd: "b < 64" "e < 64" "d < 64" by (simp_all add: b_def d_def e_def)
  have "c = 64 * (c div 64) + d" by (simp add: d_def)
  moreover have "c div 64 = 64 * (c div 64 div 64) + e" by (simp add: e_def)
  moreover have q: "c div 64 div 64 = c div 4096" by (simp add: div_mult2_eq)
  moreover have "c div 4096 = 64 * (c div 4096 div 64) + b" by (simp add: b_def)
  moreover have "c div 4096 div 64 = a" by (simp add: a_def div_mult2_eq)
  ultimately have c: "c = 262144 * a + 4096 * b + 64 * e + d" by linarith
  have a5: "a < 5" using assms c by linarith
  have u: "unat (byte_of (240 + a)) = 240 + a"
    using a5 by (intro unat_byte_of) simp
  have ub: "unat (cont_byte (c div 4096)) = 128 + b"
    by (simp add: unat_cont_byte b_def)
  have lo: "a = 0 \<Longrightarrow> 16 \<le> b" using assms(1) c bd by linarith
  have hi: "a = 4 \<Longrightarrow> b \<le> 15" using assms(2) c bd by linarith
  have s: "second_ok (240 + a) (cont_byte (c div 4096))"
    using lo hi bd a5 by (simp add: second_ok_def ub)
  have fin: "a * 262144 + b * 4096 + e * 64 + d = c" using c by simp
  show ?thesis
    using a5 s fin
    by (simp add: a_def [symmetric] u is_cont_cont_byte cbits_cont_byte
        b_def [symmetric] d_def [symmetric] e_def [symmetric])
qed

lemma decode_step_encode_cp:
  "encode_cp c = Inr bs \<Longrightarrow> decode_step (bs @ rest) = Scalar c (length bs)"
  unfolding encode_cp_def
  by (auto split: if_splits simp: decode_step_1 decode_step_2 decode_step_3 decode_step_4 simp del: decode_step.simps)

lemma encode_cp_nonempty: "encode_cp c = Inr bs \<Longrightarrow> bs \<noteq> []"
  by (auto simp: encode_cp_def split: if_splits)

lemma utf8_decode_encode:
  "utf8_encode cs = Inr bs \<Longrightarrow> utf8_decode m bs = Inr cs"
proof (induction cs arbitrary: bs)
  case Nil
  then show ?case by (simp add: utf8_decode.simps)
next
  case (Cons c cs)
  from Cons.prems obtain b1 b2 where e: "encode_cp c = Inr b1" "utf8_encode cs = Inr b2"
    and bs: "bs = b1 @ b2"
    by (auto split: sum.splits)
  have "decode_step (b1 @ b2) = Scalar c (length b1)" by (rule decode_step_encode_cp [OF e(1)])
  moreover have "b1 @ b2 \<noteq> []" using encode_cp_nonempty [OF e(1)] by simp
  moreover have "utf8_decode m b2 = Inr cs" by (rule Cons.IH [OF e(2)])
  ultimately show ?case
    unfolding bs by (subst utf8_decode.simps) simp
qed

subsection \<open>Frames\<close>

lemma read_response_frame:
  assumes p: "pack_I bo (length payload) = Inr header"
  shows "read_response bo (ch\<lparr>stdin := header @ payload @ rest\<rparr>)
           = (utf8_decode Strict payload, ch\<lparr>stdin := rest\<rparr>)"
  using pack_I_length [OF p] unpack_pack_I [OF p]
  by (simp add: read_response_def read_bytes_def)

lemma write_frame_Inr:
  "stdout_open ch \<Longrightarrow> pack_I bo (length encoded) = Inr header \<Longrightarrow>
   write_frame bo encoded ch = Inr (ch\<lparr>stdout := stdout ch @ header @ encoded\<rparr>)"
  by (simp add: write_frame_def)

subsection \<open>Literals\<close>

lemma ustr_eq_iff [simp]: "ustr s = ustr t \<longleftrightarrow> s = t"
  by (simp add: ustr_def inj_map_eq_map inj_on_def)

lemma ustr_Nil_iff [simp]: "ustr s = [] \<longleftrightarrow> s = []" "[] = ustr s \<longleftrightarrow> s = []"
  by (auto simp: ustr_def)

subsection \<open>The listener\<close>

lemma start_http_server_alive:
  "is_alive w (server_thread h) \<Longrightarrow> start_http_server h w port = (True, h, w)"
  by (simp add: start_http_server_def)

lemma start_http_server_True:
  "start_http_server h w port = (True, h1, w1) \<Longrightarrow> is_alive w1 (server_thread h1)"
  by (auto simp: start_http_server_def Let_def split: if_splits)

lemma handle_message_start:
  assumes "dict_get data ''type'' (JStr []) = Inr (JStr (ustr ''start_server''))"
  shows "handle_message L h w data =
           (case dict_get data ''port'' (JInt 8765) of
              Inl e \<Rightarrow> Inl e
            | Inr port \<Rightarrow>
                (case start_http_server h w port of (success, h1, w1) \<Rightarrow>
                   Inr (JObj [(ustr ''type'', JStr (ustr ''server_started'')),
                              (ustr ''success'', JBool success),
                              (ustr ''port'', port)], h1, w1)))"
  using assms by (simp add: handle_message_def)

lemma dict_get_port:
  "dict_get data ''type'' d = Inr t \<Longrightarrow> \<exists>port. dict_get data ''port'' (JInt 8765) = Inr port"
  by (auto simp: dict_get_def split: json.splits option.splits)

text \<open>
  C9.  A \<open>start_server\<close> message that arrives while the listener thread is alive changes
  nothing (no thread is started, no port is bound) and is answered
  \<open>{type: server_started, success: true, port}\<close> with the port of the message (8765
  when it has none).  In particular, when a \<open>start_server\<close> message has been answered
  with success, the same message again gets the same answer and leaves the host and the
  operating system as they were.
\<close>

theorem start_server_idempotent:
  "(is_alive w (server_thread h)
      \<and> dict_get data ''type'' (JStr []) = Inr (JStr (ustr ''start_server''))
    \<longrightarrow> (\<exists>port. dict_get data ''port'' (JInt 8765) = Inr port
           \<and> handle_message L h w data =
               Inr (JObj [(ustr ''type'', JStr (ustr ''server_started'')),
                          (ustr ''success'', JBool True),
                          (ustr ''port'', port)], h, w)))
   \<and> (handle_message L hs ws msg =
         Inr (JObj [(ustr ''type'', JStr (ustr ''server_started'')),
                    (ustr ''success'', JBool True),
                    (ustr ''port'', p)], ht, wt)
      \<longrightarrow> handle_message L ht wt msg =
            Inr (JObj [(ustr ''type'', JStr (ustr ''server_started'')),
                       (ustr ''success'', JBool True),
                       (ustr ''port'', p)], ht, wt))"
proof (intro conjI impI)
  assume a: "is_alive w (server_thread h)
      \<and> dict_get data ''type'' (JStr []) = Inr (JStr (ustr ''start_server''))"
  then obtain port where p: "dict_get data ''port'' (JInt 8765) = Inr port"
    using dict_get_port by blast
  show "\<exists>port. dict_get data ''port'' (JInt 8765) = Inr port
           \<and> handle_message L h w data =
               Inr (JObj [(ustr ''type'', JStr (ustr ''server_started'')),
                          (ustr ''success'', JBool True),
                          (ustr ''port'', port)], h, w)"
    using a p by (auto simp: handle_message_start start_http_server_alive)
next
  assume first: "handle_message L hs ws msg =
         Inr (JObj [(ustr ''type'', JStr (ustr ''server_started'')),
                    (ustr ''success'', JBool True),
                    (ustr ''port'', p)], ht, wt)"
  then have t: "dict_get msg ''type'' (JStr []) = Inr (JStr (ustr ''start_server''))"
    by (auto simp: handle_message_def stop_http_server_def split: sum.splits if_splits prod.splits)
  from first t have s: "dict_get msg ''port'' (JInt 8765) = Inr p"
    "start_http_server hs ws p = (True, ht, wt)"
    by (auto simp: handle_message_start split: sum.splits prod.splits)
  have "is_alive wt (server_thread ht)" by (rule start_http_server_True [OF s(2)])
  then show "handle_message L ht wt msg =
            Inr (JObj [(ustr ''type'', JStr (ustr ''server_started'')),
                       (ustr ''success'', JBool True),
                       (ustr ''port'', p)], ht, wt)"
    using t s(1) by (simp add: handle_message_start start_http_server_alive)
qed

theorem start_server_idempotent_witness:
  "handle_message example_lib init_host example_world
      (JObj [(ustr ''type'', JStr (ustr ''start_server'')), (ustr ''port'', JInt 9999)])
     = Inr (JObj [(ustr ''type'', JStr (ustr ''server_started'')),
                  (ustr ''success'', JBool True),
                  (ustr ''port'', JInt 9999)],
            \<lparr>server_thread = Some 0, running = False\<rparr>,
            \<lparr>now_ms = 0, ports_in_use = [9999], alive = [0], spawned = 1\<rparr>)
   \<and> handle_message example_lib \<lparr>server_thread = Some 0, running = False\<rparr>
        \<lparr>now_ms = 0, ports_in_use = [9999], alive = [0], spawned = 1\<rparr>
        (JObj [(ustr ''type'', JStr (ustr ''start_server'')), (ustr ''port'', JInt 9999)])
     = Inr (JObj [(ustr ''type'', JStr (ustr ''server_started'')),
                  (ustr ''success'', JBool True),
                  (ustr ''port'', JInt 9999)],
            \<lparr>server_thread = Some 0, running = False\<rparr>,
            \<lparr>now_ms = 0, ports_in_use = [9999], alive = [0], spawned = 1\<rparr>)
   \<and> is_alive \<lparr>now_ms = 0, ports_in_use = [9999], alive = [0], spawned = 1\<rparr>
        (server_thread \<lparr>server_thread = Some 0, running = False\<rparr>)"
proof -
  let ?data = "JObj [(ustr ''type'', JStr (ustr ''start_server'')), (ustr ''port'', JInt 9999)]"
  let ?h1 = "\<lparr>server_thread = Some 0, running = False\<rparr>"
  let ?w1 = "\<lparr>now_ms = 0, ports_in_use = [9999], alive = [0], spawned = 1\<rparr>"
  have first: "handle_message example_lib init_host example_world ?data =
      Inr (JObj [(ustr ''type'', JStr (ustr ''server_started'')),
                 (ustr ''success'', JBool True),
                 (ustr ''port'', JInt 9999)], ?h1, ?w1)"
    by (simp add: handle_message_def dict_get_def start_http_server_def is_alive_def
        run_server_def port_number_def init_host_def example_world_def Let_def)
  have al: "is_alive ?w1 (server_thread ?h1)" by (simp add: is_alive_def)
  have ty: "dict_get ?data ''type'' (JStr []) = Inr (JStr (ustr ''start_server''))"
    by (simp add: dict_get_def)
  from start_server_idempotent [where L = example_lib and h = ?h1 and w = ?w1 and data = ?data
      and hs = init_host and ws = example_world and msg = ?data and p = "JInt 9999"
      and ht = ?h1 and wt = ?w1]
  show ?thesis using first al ty by simp
qed

text \<open>
  C2.  A \<open>stop_server\<close> message is answered \<open>{type: server_stopped, success: true}\<close>, but
  neither the host nor the operating system changes: \<open>stop_http_server\<close> only writes a
  log line, so a listener thread that was alive is still alive and its port still bound.
\<close>

theorem stop_server_changes_nothing:
  "handle_message L h w (JObj [(ustr ''type'', JStr (ustr ''stop_server''))])
     = Inr (JObj [(ustr ''type'', JStr (ustr ''server_stopped'')),
                  (ustr ''success'', JBool True)], h, w)"
  by (simp add: handle_message_def dict_get_def stop_http_server_def)

lemma stop_server_after_start_still_listening:
  "handle_message example_lib \<lparr>server_thread = Some 0, running = True\<rparr>
        \<lparr>now_ms = 0, ports_in_use = [9999], alive = [0], spawned = 1\<rparr>
        (JObj [(ustr ''type'', JStr (ustr ''stop_server''))])
     = Inr (JObj [(ustr ''type'', JStr (ustr ''server_stopped'')),
                  (ustr ''success'', JBool True)],
            \<lparr>server_thread = Some 0, running = True\<rparr>,
            \<lparr>now_ms = 0, ports_in_use = [9999], alive = [0], spawned = 1\<rparr>)
   \<and> is_alive \<lparr>now_ms = 0, ports_in_use = [9999], alive = [0], spawned = 1\<rparr> (Some 0)"
  by (simp add: handle_message_def dict_get_def stop_http_server_def is_alive_def)

subsection \<open>Further facts about the length prefix and the decoder\<close>

lemma unpack_I_length: "unpack_I bo bs = Inr n \<Longrightarrow> length bs = 4"
  by (cases bo; cases bs rule: le_value.cases; cases "rev bs" rule: le_value.cases)
     (auto simp: unpack_I_def)

lemma unpack_I_total: "length bs = 4 \<Longrightarrow> \<exists>n. unpack_I bo bs = Inr n"
proof -
  assume "length bs = 4"
  then obtain a b c d where "bs = [a, b, c, d]"
    by (auto simp: length_Suc_conv numeral_eq_Suc)
  then show ?thesis by (cases bo) (auto simp: unpack_I_def)
qed

lemma utf8_decode_Nil [simp]: "utf8_decode m [] = Inr []"
  by (simp add: utf8_decode.simps)

lemma utf8_decode_ascii:
  "unat b < 128 \<Longrightarrow> utf8_decode m (b # bs) =
     (case utf8_decode m bs of Inl e \<Rightarrow> Inl e | Inr cs \<Rightarrow> Inr (unat b # cs))"
  by (subst utf8_decode.simps) simp

lemma utf8_decode_replicate_0: "utf8_decode m (replicate n 0) = Inr (replicate n 0)"
  by (induction n) (simp_all add: utf8_decode_ascii)

subsection \<open>Malformed control messages\<close>

lemma loop_turn_frame:
  assumes p: "pack_I bo (length payload) = Inr header"
    and d: "utf8_decode Strict payload = Inr m"
    and r: "respond L h w m = (reply, hr, wr)"
    and e: "utf8_encode (json_dumps L True reply) = Inr enc"
    and wf: "write_frame bo enc (ch\<lparr>stdin := rest\<rparr>) = Inr co"
  shows "loop_turn L bo h w (ch\<lparr>stdin := header @ payload @ rest\<rparr>) = Next hr wr co"
  using pack_I_length [OF p] unpack_pack_I [OF p] d r e wf
  by (simp add: loop_turn_def read_bytes_def)

text \<open>
  C5, as stated, fails: the payload \<open>{}\<close>, an object with no type tag, is answered with
  a reply of type \<open>unknown\<close>, not of type \<open>error\<close>.
\<close>

theorem missing_tag_counterexample:
  "fst (respond example_lib init_host example_world (ustr ''{}''))
     = JObj [(ustr ''type'', JStr (ustr ''unknown'')),
             (ustr ''error'', JStr (ustr ''Unknown message type: ''))]"
  by (simp add: respond_def example_lib_def handle_message_def dict_get_def format_value_def)

text \<open>
  C5, amended.  For a frame whose payload is UTF-8 text: text that is not JSON is
  answered \<open>{type: error, error: Invalid JSON format}\<close>; JSON that is not an object is
  answered \<open>{type: error, error: detail}\<close>; an object with no type tag, or with a tag
  other than the three known ones, is answered \<open>{type: unknown, error: Unknown message
  type: tag}\<close>.  In each case host and operating system are unchanged, and when the
  reply has been written the loop goes on with the input that follows the frame.
\<close>

theorem malformed_control_messages:
  "(json_loads L ma = Inl JSONDecodeError \<longrightarrow>
      respond L h w ma = (error_response (ustr ''Invalid JSON format''), h, w))
   \<and> (json_loads L mb = Inr d \<and> (case d of JObj _ \<Rightarrow> False | _ \<Rightarrow> True) \<longrightarrow>
      respond L h w mb = (error_response (str_exc L AttributeError), h, w))
   \<and> (json_loads L mc = Inr (JObj kvs)
        \<and> dict_get (JObj kvs) ''type'' (JStr []) = Inr t
        \<and> t \<noteq> JStr (ustr ''start_server'') \<and> t \<noteq> JStr (ustr ''stop_server'')
        \<and> t \<noteq> JStr (ustr ''ping'') \<longrightarrow>
      respond L h w mc
        = (JObj [(ustr ''type'', JStr (ustr ''unknown'')),
                 (ustr ''error'', JStr (ustr ''Unknown message type: '' @ format_value L t))],
           h, w))
   \<and> (pack_I bo (length payload) = Inr header
        \<and> utf8_decode Strict payload = Inr m
        \<and> respond L h w m = (reply, hr, wr)
        \<and> utf8_encode (json_dumps L True reply) = Inr enc
        \<and> write_frame bo enc (ch\<lparr>stdin := rest\<rparr>) = Inr co \<longrightarrow>
      loop_turn L bo h w (ch\<lparr>stdin := header @ payload @ rest\<rparr>) = Next hr wr co)"
proof (intro conjI impI)
  assume "json_loads L ma = Inl JSONDecodeError"
  then show "respond L h w ma = (error_response (ustr ''Invalid JSON format''), h, w)"
    by (simp add: respond_def)
next
  assume "json_loads L mb = Inr d \<and> (case d of JObj _ \<Rightarrow> False | _ \<Rightarrow> True)"
  then show "respond L h w mb = (error_response (str_exc L AttributeError), h, w)"
    by (cases d) (simp_all add: respond_def handle_message_def dict_get_def)
next
  assume "json_loads L mc = Inr (JObj kvs)
        \<and> dict_get (JObj kvs) ''type'' (JStr []) = Inr t
        \<and> t \<noteq> JStr (ustr ''start_server'') \<and> t \<noteq> JStr (ustr ''stop_server'')
        \<and> t \<noteq> JStr (ustr ''ping'')"
  then show "respond L h w mc
        = (JObj [(ustr ''type'', JStr (ustr ''unknown'')),
                 (ustr ''error'', JStr (ustr ''Unknown message type: '' @ format_value L t))],
           h, w)"
    by (simp add: respond_def handle_message_def)
next
  assume "pack_I bo (length payload) = Inr header
        \<and> utf8_decode Strict payload = Inr m
        \<and> respond L h w m = (reply, hr, wr)
        \<and> utf8_encode (json_dumps L True reply) = Inr enc
        \<and> write_frame bo enc (ch\<lparr>stdin := rest\<rparr>) = Inr co"
  then show "loop_turn L bo h w (ch\<lparr>stdin := header @ payload @ rest\<rparr>) = Next hr wr co"
    using loop_turn_frame by blast
qed

theorem malformed_control_messages_witness:
  "respond example_lib init_host example_world (ustr ''x'')
     = (error_response (ustr ''Invalid JSON format''), init_host, example_world)
   \<and> respond example_lib init_host example_world (ustr ''[1]'')
     = (error_response (ustr ''error''), init_host, example_world)
   \<and> respond example_lib init_host example_world (ustr ''{}'')
     = (JObj [(ustr ''type'', JStr (ustr ''unknown'')),
              (ustr ''error'', JStr (ustr ''Unknown message type: ''))],
        init_host, example_world)
   \<and> loop_turn example_lib LittleEndian init_host example_world
        (example_channel ([2, 0, 0, 0] @ [123, 125] @ [9]))
     = Next init_host example_world
         \<lparr>stdin = [9], stdout = [2, 0, 0, 0, 123, 125], stdout_open = True\<rparr>"
proof -
  let ?unknown = "JObj [(ustr ''type'', JStr (ustr ''unknown'')),
              (ustr ''error'', JStr (ustr ''Unknown message type: ''))]"
  have a: "json_loads example_lib (ustr ''x'') = Inl JSONDecodeError"
    by (simp add: example_lib_def)
  have b: "json_loads example_lib (ustr ''[1]'') = Inr (JArr [JInt 1])
        \<and> (case JArr [JInt 1] of JObj _ \<Rightarrow> False | _ \<Rightarrow> True)"
    by (simp add: example_lib_def)
  have c: "json_loads example_lib (ustr ''{}'') = Inr (JObj [])
        \<and> dict_get (JObj []) ''type'' (JStr []) = Inr (JStr [])
        \<and> JStr [] \<noteq> JStr (ustr ''start_server'') \<and> JStr [] \<noteq> JStr (ustr ''stop_server'')
        \<and> JStr [] \<noteq> JStr (ustr ''ping'')"
    by (simp add: example_lib_def dict_get_def)
  have r: "respond example_lib init_host example_world (ustr ''{}'')
             = (?unknown, init_host, example_world)"
    by (simp add: respond_def example_lib_def handle_message_def dict_get_def format_value_def)
  have d: "pack_I LittleEndian (length [123, 125 :: byte]) = Inr [2, 0, 0, 0]
        \<and> utf8_decode Strict [123, 125] = Inr (ustr ''{}'')
        \<and> respond example_lib init_host example_world (ustr ''{}'')
             = (?unknown, init_host, example_world)
        \<and> utf8_encode (json_dumps example_lib True ?unknown) = Inr [123, 125]
        \<and> write_frame LittleEndian [123, 125] ((example_channel [])\<lparr>stdin := [9]\<rparr>)
             = Inr \<lparr>stdin = [9], stdout = [2, 0, 0, 0, 123, 125], stdout_open = True\<rparr>"
    using r
    by (simp add: pack_I_def le_bytes_def byte_of_def utf8_decode_ascii ustr_def
        example_lib_def encode_cp_def write_frame_def example_channel_def)
  show ?thesis
    using malformed_control_messages [where L = example_lib and h = init_host
        and w = example_world and ma = "ustr ''x''" and mb = "ustr ''[1]''"
        and d = "JArr [JInt 1]" and mc = "ustr ''{}''" and kvs = "[]" and t = "JStr []"
        and bo = LittleEndian and payload = "[123, 125]" and header = "[2, 0, 0, 0]"
        and m = "ustr ''{}''" and reply = ?unknown and hr = init_host and wr = example_world
        and enc = "[123, 125]" and ch = "example_channel []" and rest = "[9]"
        and co = "\<lparr>stdin = [9], stdout = [2, 0, 0, 0, 123, 125], stdout_open = True\<rparr>"]
      a b c d
    by (simp add: example_channel_def str_exc_def example_lib_def format_value_def)
qed

text \<open>
  A payload that is not UTF-8 is outside the inner \<open>try\<close>: the exception of the decoder
  reaches the outer \<open>except\<close>, the loop ends and nothing is written.
\<close>

lemma undecodable_payload_ends_loop:
  "loop_turn example_lib LittleEndian init_host example_world
      (example_channel [1, 0, 0, 0, 255, 9])
     = Exit (Raised UnicodeDecodeError) init_host example_world (example_channel [9])"
  by (simp add: loop_turn_def read_bytes_def example_channel_def unpack_I_def
      utf8_decode.simps)

subsection \<open>The round trip of a frame\<close>

lemma message_loop_Exit:
  "loop_turn L bo h w ch = Exit x h1 w1 ch1 \<Longrightarrow> message_loop L bo h w ch = (x, h1, w1, ch1)"
  by (subst message_loop.simps) simp

lemma message_loop_Next:
  "loop_turn L bo h w ch = Next h1 w1 ch1 \<Longrightarrow>
   message_loop L bo h w ch = message_loop L bo h1 w1 ch1"
  by (subst message_loop.simps) simp

lemma loop_turn_whole_frame:
  assumes p: "pack_I bo (length payload) = Inr header"
  shows "loop_turn L bo h w (ch\<lparr>stdin := header @ payload @ rest\<rparr>)
           = (case utf8_decode Strict payload of
                Inl e \<Rightarrow> Exit (Raised e) h w (ch\<lparr>stdin := rest\<rparr>)
              | Inr message \<Rightarrow>
                  (case respond L h w message of (response, h1, w1) \<Rightarrow>
                     (case utf8_encode (json_dumps L True response) of
                        Inl e \<Rightarrow> Exit (Raised e) h1 w1 (ch\<lparr>stdin := rest\<rparr>)
                      | Inr enc \<Rightarrow>
                          (case write_frame bo enc (ch\<lparr>stdin := rest\<rparr>) of
                             Inl e \<Rightarrow> Exit (Raised e) h1 w1 (ch\<lparr>stdin := rest\<rparr>)
                           | Inr ch3 \<Rightarrow> Next h1 w1 ch3))))"
  using pack_I_length [OF p] unpack_pack_I [OF p]
  by (simp add: loop_turn_def read_bytes_def split: sum.splits prod.splits)

text \<open>
  C3.  A payload that can be written as a frame (its UTF-8 encoding exists and its length
  fits the 32-bit prefix) is read back unchanged, for either byte order.  The frame
  written to an open channel is the four bytes of the packed length followed by the
  encoding.  When these bytes, followed by any further input, are read, the response
  reader returns exactly the payload, and one turn of the control loop hands exactly the
  payload to the message handling and writes the reply it gets; both leave the further
  input unread.  The loop as a whole does that turn and goes on with the further input.
\<close>

theorem frame_round_trip:
  assumes "utf8_encode P = Inr encoded" and "length encoded < 2 ^ 32" and "stdout_open out"
  shows "\<exists>header. pack_I bo (length encoded) = Inr header \<and> length header = 4
           \<and> write_frame bo encoded out = Inr (out\<lparr>stdout := stdout out @ header @ encoded\<rparr>)
           \<and> read_response bo (ch\<lparr>stdin := header @ encoded @ rest\<rparr>)
               = (Inr P, ch\<lparr>stdin := rest\<rparr>)
           \<and> loop_turn L bo h w (ch\<lparr>stdin := header @ encoded @ rest\<rparr>)
               = (case respond L h w P of (response, h1, w1) \<Rightarrow>
                    (case utf8_encode (json_dumps L True response) of
                       Inl e \<Rightarrow> Exit (Raised e) h1 w1 (ch\<lparr>stdin := rest\<rparr>)
                     | Inr enc \<Rightarrow>
                         (case write_frame bo enc (ch\<lparr>stdin := rest\<rparr>) of
                            Inl e \<Rightarrow> Exit (Raised e) h1 w1 (ch\<lparr>stdin := rest\<rparr>)
                          | Inr ch3 \<Rightarrow> Next h1 w1 ch3)))
           \<and> message_loop L bo h w (ch\<lparr>stdin := header @ encoded @ rest\<rparr>)
               = (case respond L h w P of (response, h1, w1) \<Rightarrow>
                    (case utf8_encode (json_dumps L True response) of
                       Inl e \<Rightarrow> (Raised e, h1, w1, ch\<lparr>stdin := rest\<rparr>)
                     | Inr enc \<Rightarrow>
                         (case write_frame bo enc (ch\<lparr>stdin := rest\<rparr>) of
                            Inl e \<Rightarrow> (Raised e, h1, w1, ch\<lparr>stdin := rest\<rparr>)
                          | Inr ch3 \<Rightarrow> message_loop L bo h1 w1 ch3)))"
proof -
  from assms(2) obtain header where p: "pack_I bo (length encoded) = Inr header"
    by (auto simp: pack_I_def)
  have d: "utf8_decode Strict encoded = Inr P" by (rule utf8_decode_encode [OF assms(1)])
  have l: "length header = 4" by (rule pack_I_length [OF p])
  have w: "write_frame bo encoded out = Inr (out\<lparr>stdout := stdout out @ header @ encoded\<rparr>)"
    by (rule write_frame_Inr [OF assms(3) p])
  have r: "read_response bo (ch\<lparr>stdin := header @ encoded @ rest\<rparr>)
             = (Inr P, ch\<lparr>stdin := rest\<rparr>)"
    using read_response_frame [OF p, where ch = ch and rest = rest] d by simp
  have t: "loop_turn L bo h w (ch\<lparr>stdin := header @ encoded @ rest\<rparr>)
               = (case respond L h w P of (response, h1, w1) \<Rightarrow>
                    (case utf8_encode (json_dumps L True response) of
                       Inl e \<Rightarrow> Exit (Raised e) h1 w1 (ch\<lparr>stdin := rest\<rparr>)
                     | Inr enc \<Rightarrow>
                         (case write_frame bo enc (ch\<lparr>stdin := rest\<rparr>) of
                            Inl e \<Rightarrow> Exit (Raised e) h1 w1 (ch\<lparr>stdin := rest\<rparr>)
                          | Inr ch3 \<Rightarrow> Next h1 w1 ch3)))"
    using loop_turn_whole_frame [OF p, where ch = ch and rest = rest and L = L and h = h
        and w = w] d by simp
  have m: "message_loop L bo h w (ch\<lparr>stdin := header @ encoded @ rest\<rparr>)
               = (case respond L h w P of (response, h1, w1) \<Rightarrow>
                    (case utf8_encode (json_dumps L True response) of
                       Inl e \<Rightarrow> (Raised e, h1, w1, ch\<lparr>stdin := rest\<rparr>)
                     | Inr enc \<Rightarrow>
                         (case write_frame bo enc (ch\<lparr>stdin := rest\<rparr>) of
                            Inl e \<Rightarrow> (Raised e, h1, w1, ch\<lparr>stdin := rest\<rparr>)
                          | Inr ch3 \<Rightarrow> message_loop L bo h1 w1 ch3)))"
    by (subst message_loop.simps) (simp add: t split: prod.splits sum.splits)
  from p l w r t m show ?thesis by blast
qed

theorem frame_round_trip_witness:
  "write_frame LittleEndian [226, 130, 172] (example_channel [])
     = Inr \<lparr>stdin = [], stdout = [3, 0, 0, 0, 226, 130, 172], stdout_open = True\<rparr>
   \<and> read_response LittleEndian (example_channel [3, 0, 0, 0, 226, 130, 172, 7])
     = (Inr [8364], example_channel [7])
   \<and> loop_turn verbose_lib LittleEndian init_host example_world
        (example_channel [3, 0, 0, 0, 226, 130, 172, 7])
     = Next init_host example_world
         \<lparr>stdin = [7], stdout = [5, 0, 0, 0, 101, 114, 114, 111, 114], stdout_open = True\<rparr>
   \<and> loop_turn verbose_lib LittleEndian init_host example_world
        (example_channel [2, 0, 0, 0, 123, 125, 7])
     = Next init_host example_world
         \<lparr>stdin = [7], stdout = [7, 0, 0, 0, 117, 110, 107, 110, 111, 119, 110],
          stdout_open = True\<rparr>
   \<and> run_native_messaging_loop verbose_lib LittleEndian init_host example_world
        (example_channel [2, 0, 0, 0, 123, 125])
     = (Break, init_host, example_world,
        \<lparr>stdin = [], stdout = [7, 0, 0, 0, 117, 110, 107, 110, 111, 119, 110],
         stdout_open = True\<rparr>)"
proof -
  let ?h = "init_host\<lparr>running := True\<rparr>"
  let ?unknown = "JObj [(ustr ''type'', JStr (ustr ''unknown'')),
                      (ustr ''error'', JStr (ustr ''Unknown message type: ''))]"
  let ?done = "\<lparr>stdin = [], stdout = [7, 0, 0, 0, 117, 110, 107, 110, 111, 119, 110],
         stdout_open = True\<rparr>"
  have e: "utf8_encode [8364] = Inr [226, 130, 172]"
    by (simp add: encode_cp_def cont_byte_def byte_of_def)
  have l: "length [226, 130, 172 :: byte] < 2 ^ 32" by simp
  have f: "utf8_encode (ustr ''{}'') = Inr [123, 125]"
    by (simp add: encode_cp_def byte_of_def ustr_def)
  have m: "length [123, 125 :: byte] < 2 ^ 32" by simp
  have o: "stdout_open (example_channel [])" by (simp add: example_channel_def)
  have p: "pack_I LittleEndian 3 = Inr [3, 0, 0, 0]" "pack_I LittleEndian 2 = Inr [2, 0, 0, 0]"
    by (simp_all add: pack_I_def le_bytes_def byte_of_def)
  have r: "respond verbose_lib h example_world [8364]
             = (error_response (ustr ''Invalid JSON format''), h, example_world)"
    "respond verbose_lib h example_world (ustr ''{}'') = (?unknown, h, example_world)" for h
    by (simp_all add: respond_def verbose_lib_def example_lib_def handle_message_def
        dict_get_def format_value_def ustr_def)
  have u: "utf8_encode (ustr ''error'') = Inr [101, 114, 114, 111, 114]"
    "utf8_encode (ustr ''unknown'') = Inr [117, 110, 107, 110, 111, 119, 110]"
    by (simp_all add: encode_cp_def byte_of_def ustr_def)
  have j: "json_dumps verbose_lib True (error_response (ustr ''Invalid JSON format''))
             = ustr ''error''"
    "json_dumps verbose_lib True ?unknown = ustr ''unknown''"
    by (simp_all add: verbose_lib_def error_response_def)
  have x: "message_loop verbose_lib LittleEndian ?h example_world ?done
             = (Break, ?h, example_world, ?done)"
    by (rule message_loop_Exit) (simp add: loop_turn_def read_bytes_def)
  have a: "loop_turn verbose_lib LittleEndian init_host example_world
        (example_channel [2, 0, 0, 0, 123, 125, 7])
     = Next init_host example_world
         \<lparr>stdin = [7], stdout = [7, 0, 0, 0, 117, 110, 107, 110, 111, 119, 110],
          stdout_open = True\<rparr>"
    using frame_round_trip [OF f m o, where bo = LittleEndian and rest = "[7]"
        and ch = "example_channel []" and L = verbose_lib and h = init_host
        and w = example_world]
    by (simp add: p r u j write_frame_def example_channel_def pack_I_def le_bytes_def
        byte_of_def)
  have b: "message_loop verbose_lib LittleEndian ?h example_world
        (example_channel [2, 0, 0, 0, 123, 125]) = (Break, ?h, example_world, ?done)"
    using frame_round_trip [OF f m o, where bo = LittleEndian and rest = "[]"
        and ch = "example_channel []" and L = verbose_lib and h = ?h
        and w = example_world]
    by (simp add: p r u j write_frame_def example_channel_def pack_I_def le_bytes_def
        byte_of_def x)
  have c: "run_native_messaging_loop verbose_lib LittleEndian init_host example_world
        (example_channel [2, 0, 0, 0, 123, 125]) = (Break, init_host, example_world, ?done)"
    unfolding run_native_messaging_loop_def b
    by (simp add: stop_http_server_def init_host_def)
  show ?thesis
    using frame_round_trip [OF e l o, where bo = LittleEndian and rest = "[7]"
        and ch = "example_channel []" and L = verbose_lib and h = init_host
        and w = example_world] a c
    by (simp add: p r u j write_frame_def example_channel_def pack_I_def le_bytes_def
        byte_of_def)
qed

subsection \<open>Whole frames only\<close>

lemma loop_turn_short_prefix:
  "length (stdin ch) < 4 \<Longrightarrow> loop_turn L bo h w ch = Exit Break h w (ch\<lparr>stdin := []\<rparr>)"
  by (simp add: loop_turn_def read_bytes_def)

lemma loop_turn_short_payload:
  assumes "unpack_I bo (take 4 (stdin ch)) = Inr n" and "length (stdin ch) < 4 + n"
  shows "loop_turn L bo h w ch = Exit Break h w (ch\<lparr>stdin := []\<rparr>)"
proof -
  have "4 \<le> length (stdin ch)"
    using unpack_I_length [OF assms(1)] by simp
  with assms show ?thesis
    by (auto simp: loop_turn_def read_bytes_def min_def)
qed

text \<open>
  C4, as stated, fails on the control loop: a frame cut short ends the loop at a
  \<open>break\<close>, exactly as a clean end of input does.  No exception is raised and nothing
  tells the two apart.
\<close>

theorem truncated_frame_ends_loop_silently:
  "run_native_messaging_loop example_lib LittleEndian init_host example_world
      (example_channel [5, 0, 0, 0, 104, 105])
     = (Break, init_host, example_world, example_channel [])
   \<and> run_native_messaging_loop example_lib LittleEndian init_host example_world
      (example_channel [1, 2])
     = (Break, init_host, example_world, example_channel [])
   \<and> run_native_messaging_loop example_lib LittleEndian init_host example_world
      (example_channel [])
     = (Break, init_host, example_world, example_channel [])"
proof -
  let ?h = "init_host\<lparr>running := True\<rparr>"
  have a: "message_loop example_lib LittleEndian ?h example_world
             (example_channel [5, 0, 0, 0, 104, 105])
           = (Break, ?h, example_world, example_channel [])"
    by (rule message_loop_Exit)
       (simp add: loop_turn_def read_bytes_def example_channel_def unpack_I_def)
  have b: "message_loop example_lib LittleEndian ?h example_world (example_channel [1, 2])
           = (Break, ?h, example_world, example_channel [])"
    by (rule message_loop_Exit) (simp add: loop_turn_def read_bytes_def example_channel_def)
  have c: "message_loop example_lib LittleEndian ?h example_world (example_channel [])
           = (Break, ?h, example_world, example_channel [])"
    by (rule message_loop_Exit) (simp add: loop_turn_def read_bytes_def example_channel_def)
  show ?thesis
    unfolding run_native_messaging_loop_def a b c
    by (simp add: stop_http_server_def init_host_def)
qed

text \<open>
  C4, amended.  The response reader raises \<open>Failed to read response length from
  extension\<close> when fewer than four bytes come before end of file, and \<open>Failed to read
  complete response from extension\<close> when fewer payload bytes come than the prefix
  declares; \<open>send_to_extension\<close> turns any failure of the read into the 503 envelope.
  The control loop raises nothing in these two cases: it leaves at a \<open>break\<close>, having
  consumed what was there.  On neither path is a part of a frame delivered: when the
  response reader returns a text, and when the loop goes on, the prefix and all the
  bytes it declares were there, exactly they were consumed, the text returned (or
  handed to the message handling, whose reply is written) is the decoding of the whole
  declared payload.
\<close>

theorem read_frame_failures:
  "(length (stdin ca) < 4 \<longrightarrow>
      read_response bo ca
        = (Inl (Exception (ustr ''Failed to read response length from extension'')),
           ca\<lparr>stdin := []\<rparr>)
      \<and> loop_turn L bo h w ca = Exit Break h w (ca\<lparr>stdin := []\<rparr>))
   \<and> (unpack_I bo (take 4 (stdin cb)) = Inr n \<and> length (stdin cb) < 4 + n \<longrightarrow>
      read_response bo cb
        = (Inl (Exception (ustr ''Failed to read complete response from extension'')),
           cb\<lparr>stdin := []\<rparr>)
      \<and> loop_turn L bo h w cb = Exit Break h w (cb\<lparr>stdin := []\<rparr>))
   \<and> (utf8_encode (json_dumps L True data) = Inr enc \<and> write_frame bo enc cf = Inr cg
        \<and> read_response bo cg = (Inl e, ci) \<longrightarrow>
      send_to_extension L bo data cf = (communication_error L e, ci))
   \<and> (read_response bo cc = (Inr P, cd) \<longrightarrow>
      (\<exists>k. unpack_I bo (take 4 (stdin cc)) = Inr k \<and> 4 + k \<le> length (stdin cc)
           \<and> utf8_decode Strict (take k (drop 4 (stdin cc))) = Inr P
           \<and> cd = cc\<lparr>stdin := drop (4 + k) (stdin cc)\<rparr>))
   \<and> (loop_turn L bo h w ce = Next hn wn cn \<longrightarrow>
      (\<exists>k message response encoded.
           unpack_I bo (take 4 (stdin ce)) = Inr k \<and> 4 + k \<le> length (stdin ce)
           \<and> utf8_decode Strict (take k (drop 4 (stdin ce))) = Inr message
           \<and> respond L h w message = (response, hn, wn)
           \<and> utf8_encode (json_dumps L True response) = Inr encoded
           \<and> write_frame bo encoded (ce\<lparr>stdin := drop (4 + k) (stdin ce)\<rparr>) = Inr cn))"
proof (intro conjI impI)
  assume "length (stdin ca) < 4"
  then show "read_response bo ca
        = (Inl (Exception (ustr ''Failed to read response length from extension'')),
           ca\<lparr>stdin := []\<rparr>)"
    by (simp add: read_response_def read_bytes_def)
next
  assume "length (stdin ca) < 4"
  then show "loop_turn L bo h w ca = Exit Break h w (ca\<lparr>stdin := []\<rparr>)"
    by (rule loop_turn_short_prefix)
next
  assume a: "unpack_I bo (take 4 (stdin cb)) = Inr n \<and> length (stdin cb) < 4 + n"
  then have l: "4 \<le> length (stdin cb)" using unpack_I_length [of bo "take 4 (stdin cb)" n] by simp
  with a show "read_response bo cb
        = (Inl (Exception (ustr ''Failed to read complete response from extension'')),
           cb\<lparr>stdin := []\<rparr>)"
    by (auto simp: read_response_def read_bytes_def min_def)
next
  assume a: "unpack_I bo (take 4 (stdin cb)) = Inr n \<and> length (stdin cb) < 4 + n"
  then show "loop_turn L bo h w cb = Exit Break h w (cb\<lparr>stdin := []\<rparr>)"
    using loop_turn_short_payload by blast
next
  assume "utf8_encode (json_dumps L True data) = Inr enc \<and> write_frame bo enc cf = Inr cg
        \<and> read_response bo cg = (Inl e, ci)"
  then show "send_to_extension L bo data cf = (communication_error L e, ci)"
    by (simp add: send_to_extension_def)
next
  assume "read_response bo cc = (Inr P, cd)"
  then show "\<exists>k. unpack_I bo (take 4 (stdin cc)) = Inr k \<and> 4 + k \<le> length (stdin cc)
           \<and> utf8_decode Strict (take k (drop 4 (stdin cc))) = Inr P
           \<and> cd = cc\<lparr>stdin := drop (4 + k) (stdin cc)\<rparr>"
    by (auto simp: read_response_def read_bytes_def add.commute
             split: if_splits sum.splits)
next
  assume "loop_turn L bo h w ce = Next hn wn cn"
  then show "\<exists>k message response encoded.
           unpack_I bo (take 4 (stdin ce)) = Inr k \<and> 4 + k \<le> length (stdin ce)
           \<and> utf8_decode Strict (take k (drop 4 (stdin ce))) = Inr message
           \<and> respond L h w message = (response, hn, wn)
           \<and> utf8_encode (json_dumps L True response) = Inr encoded
           \<and> write_frame bo encoded (ce\<lparr>stdin := drop (4 + k) (stdin ce)\<rparr>) = Inr cn"
    by (auto simp: loop_turn_def read_bytes_def add.commute
             split: if_splits sum.splits prod.splits)
qed

theorem read_frame_failures_witness:
  "read_response LittleEndian (example_channel [1, 2])
       = (Inl (Exception (ustr ''Failed to read response length from extension'')),
          example_channel [])
   \<and> loop_turn verbose_lib LittleEndian init_host example_world (example_channel [1, 2])
       = Exit Break init_host example_world (example_channel [])
   \<and> unpack_I LittleEndian (take 4 (stdin (example_channel [5, 0, 0, 0, 104, 105]))) = Inr 5
   \<and> read_response LittleEndian (example_channel [5, 0, 0, 0, 104, 105])
       = (Inl (Exception (ustr ''Failed to read complete response from extension'')),
          example_channel [])
   \<and> loop_turn verbose_lib LittleEndian init_host example_world
         (example_channel [5, 0, 0, 0, 104, 105])
       = Exit Break init_host example_world (example_channel [])
   \<and> send_to_extension verbose_lib LittleEndian (JObj []) (example_channel [5, 0, 0, 0, 104, 105])
       = (communication_error verbose_lib
            (Exception (ustr ''Failed to read complete response from extension'')),
          \<lparr>stdin = [], stdout = [4, 0, 0, 0, 110, 117, 108, 108], stdout_open = True\<rparr>)
   \<and> read_response LittleEndian (example_channel [2, 0, 0, 0, 104, 105, 9])
       = (Inr [104, 105], example_channel [9])
   \<and> loop_turn verbose_lib LittleEndian init_host example_world
         (example_channel [2, 0, 0, 0, 123, 125, 9])
       = Next init_host example_world
           \<lparr>stdin = [9], stdout = [7, 0, 0, 0, 117, 110, 107, 110, 111, 119, 110],
            stdout_open = True\<rparr>
   \<and> respond verbose_lib init_host example_world (ustr ''{}'')
       = (JObj [(ustr ''type'', JStr (ustr ''unknown'')),
                (ustr ''error'', JStr (ustr ''Unknown message type: ''))],
          init_host, example_world)"
proof -
  let ?out = "\<lparr>stdin = [5, 0, 0, 0, 104, 105], stdout = [4, 0, 0, 0, 110, 117, 108, 108],
              stdout_open = True\<rparr>"
  let ?unknown = "JObj [(ustr ''type'', JStr (ustr ''unknown'')),
                (ustr ''error'', JStr (ustr ''Unknown message type: ''))]"
  have s: "utf8_encode (json_dumps verbose_lib True (JObj [])) = Inr [110, 117, 108, 108]
        \<and> write_frame LittleEndian [110, 117, 108, 108] (example_channel [5, 0, 0, 0, 104, 105])
            = Inr ?out
        \<and> read_response LittleEndian ?out
            = (Inl (Exception (ustr ''Failed to read complete response from extension'')),
               \<lparr>stdin = [], stdout = [4, 0, 0, 0, 110, 117, 108, 108], stdout_open = True\<rparr>)"
    by (simp add: verbose_lib_def example_lib_def ustr_def encode_cp_def byte_of_def
        write_frame_def pack_I_def le_bytes_def example_channel_def read_response_def
        read_bytes_def unpack_I_def)
  have r: "read_response LittleEndian (example_channel [2, 0, 0, 0, 104, 105, 9])
       = (Inr [104, 105], example_channel [9])"
    by (simp add: read_response_def read_bytes_def example_channel_def unpack_I_def
        utf8_decode_ascii)
  have q: "respond verbose_lib init_host example_world (ustr ''{}'')
             = (?unknown, init_host, example_world)"
    by (simp add: respond_def verbose_lib_def example_lib_def handle_message_def
        dict_get_def format_value_def)
  have t: "loop_turn verbose_lib LittleEndian init_host example_world
         (example_channel [2, 0, 0, 0, 123, 125, 9])
       = Next init_host example_world
           \<lparr>stdin = [9], stdout = [7, 0, 0, 0, 117, 110, 107, 110, 111, 119, 110],
            stdout_open = True\<rparr>"
    by (simp add: loop_turn_def read_bytes_def example_channel_def unpack_I_def
        utf8_decode_ascii respond_def verbose_lib_def example_lib_def handle_message_def
        dict_get_def format_value_def
        ustr_def encode_cp_def byte_of_def write_frame_def pack_I_def le_bytes_def)
  show ?thesis
    using read_frame_failures [where bo = LittleEndian and L = verbose_lib and h = init_host
        and w = example_world and ca = "example_channel [1, 2]"
        and cb = "example_channel [5, 0, 0, 0, 104, 105]" and n = 5
        and data = "JObj []" and enc = "[110, 117, 108, 108]"
        and cf = "example_channel [5, 0, 0, 0, 104, 105]" and cg = ?out
        and e = "Exception (ustr ''Failed to read complete response from extension'')"
        and ci = "\<lparr>stdin = [], stdout = [4, 0, 0, 0, 110, 117, 108, 108],
                  stdout_open = True\<rparr>"
        and cc = "example_channel [2, 0, 0, 0, 104, 105, 9]" and P = "[104, 105]"
        and cd = "example_channel [9]"
        and ce = "example_channel [2, 0, 0, 0, 123, 125, 9]" and hn = init_host
        and wn = example_world
        and cn = "\<lparr>stdin = [9], stdout = [7, 0, 0, 0, 117, 110, 107, 110, 111, 119, 110],
                  stdout_open = True\<rparr>"]
      s r t q
    by (simp add: example_channel_def unpack_I_def)
qed

subsection \<open>No cap on the length of a frame\<close>

lemma unat_byte_lt: "unat (b :: byte) < 256"
  using unsigned_less [of b, where 'a = nat] by simp

lemma le_value_bound: "le_value bs = Inr k \<Longrightarrow> k < 2 ^ 32"
proof (cases bs rule: le_value.cases)
  case (1 a b c d)
  assume "le_value bs = Inr k"
  with 1 have k: "k = unat a + 256 * unat b + 65536 * unat c + 16777216 * unat d" by simp
  show ?thesis
    using unat_byte_lt [of a] unat_byte_lt [of b] unat_byte_lt [of c] unat_byte_lt [of d]
    unfolding k by simp
qed auto

lemma unpack_I_bound: "unpack_I bo bs = Inr k \<Longrightarrow> k < 2 ^ 32"
  by (cases bo) (auto simp: unpack_I_def dest: le_value_bound)

lemma nul_text_unknown:
  "json_loads verbose_lib (replicate 4294967295 0) = Inl JSONDecodeError"
proof -
  have a: "replicate 4294967295 (0::nat) \<noteq> ustr ''{}''"
  proof
    assume "replicate 4294967295 (0::nat) = ustr ''{}''"
    then have "length (replicate 4294967295 (0::nat)) = length (ustr ''{}'')"
      by (rule arg_cong)
    then show False by (simp add: ustr_def)
  qed
  have b: "replicate 4294967295 (0::nat) \<noteq> ustr ''[1]''"
  proof
    assume "replicate 4294967295 (0::nat) = ustr ''[1]''"
    then have "length (replicate 4294967295 (0::nat)) = length (ustr ''[1]'')"
      by (rule arg_cong)
    then show False by (simp add: ustr_def)
  qed
  show ?thesis
    unfolding verbose_lib_def example_lib_def using a b by simp
qed

text \<open>
  C8, as stated, fails: the response reader accepts a frame that declares the largest
  length a four-byte prefix can hold, \<open>2^32 - 1\<close> bytes, when that many bytes follow.
\<close>

theorem frame_cap_counterexample:
  "read_response LittleEndian
      (example_channel ([255, 255, 255, 255] @ replicate 4294967295 0))
     = (Inr (replicate 4294967295 0), example_channel [])"
proof -
  have p: "pack_I LittleEndian (length (replicate 4294967295 (0::byte)))
             = Inr [255, 255, 255, 255]"
    by (simp add: pack_I_def le_bytes_def byte_of_def)
  show ?thesis
    using read_response_frame [OF p, where ch = "example_channel []" and rest = "[]",
        unfolded append_Nil2]
    by (simp only: utf8_decode_replicate_0 example_channel_def channel.simps
        channel.update_convs)
qed

text \<open>
  C8, amended.  Neither read path compares the declared length with a cap, and no
  read fails for the size of a frame.  Every four bytes are a length prefix, of a
  length below \<open>2^32\<close>.  Whatever that length, a frame whose payload bytes are all
  there is taken whole: the response reader goes on to decode exactly the payload, and
  so does the loop, which then handles the message and writes the reply.
\<close>

theorem reads_have_no_cap:
  "(length pre = 4 \<longrightarrow> (\<exists>k. unpack_I bo pre = Inr k \<and> k < 2 ^ 32))
   \<and> (length payload < 2 ^ 32 \<longrightarrow>
      (\<exists>header. pack_I bo (length payload) = Inr header
           \<and> read_response bo (ch\<lparr>stdin := header @ payload @ rest\<rparr>)
               = (utf8_decode Strict payload, ch\<lparr>stdin := rest\<rparr>)
           \<and> loop_turn L bo h w (ch\<lparr>stdin := header @ payload @ rest\<rparr>)
               = (case utf8_decode Strict payload of
                    Inl e \<Rightarrow> Exit (Raised e) h w (ch\<lparr>stdin := rest\<rparr>)
                  | Inr message \<Rightarrow>
                      (case respond L h w message of (response, h1, w1) \<Rightarrow>
                         (case utf8_encode (json_dumps L True response) of
                            Inl e \<Rightarrow> Exit (Raised e) h1 w1 (ch\<lparr>stdin := rest\<rparr>)
                          | Inr enc \<Rightarrow>
                              (case write_frame bo enc (ch\<lparr>stdin := rest\<rparr>) of
                                 Inl e \<Rightarrow> Exit (Raised e) h1 w1 (ch\<lparr>stdin := rest\<rparr>)
                               | Inr ch3 \<Rightarrow> Next h1 w1 ch3))))))"
proof (intro conjI impI)
  assume "length pre = 4"
  then show "\<exists>k. unpack_I bo pre = Inr k \<and> k < 2 ^ 32"
    using unpack_I_total [of pre bo] unpack_I_bound [of bo pre] by blast
next
  assume "length payload < 2 ^ 32"
  then obtain header where p: "pack_I bo (length payload) = Inr header"
    by (auto simp: pack_I_def)
  from p read_response_frame [OF p, where ch = ch and rest = rest]
    loop_turn_whole_frame [OF p, where ch = ch and rest = rest and L = L and h = h and w = w]
  show "\<exists>header. pack_I bo (length payload) = Inr header
           \<and> read_response bo (ch\<lparr>stdin := header @ payload @ rest\<rparr>)
               = (utf8_decode Strict payload, ch\<lparr>stdin := rest\<rparr>)
           \<and> loop_turn L bo h w (ch\<lparr>stdin := header @ payload @ rest\<rparr>)
               = (case utf8_decode Strict payload of
                    Inl e \<Rightarrow> Exit (Raised e) h w (ch\<lparr>stdin := rest\<rparr>)
                  | Inr message \<Rightarrow>
                      (case respond L h w message of (response, h1, w1) \<Rightarrow>
                         (case utf8_encode (json_dumps L True response) of
                            Inl e \<Rightarrow> Exit (Raised e) h1 w1 (ch\<lparr>stdin := rest\<rparr>)
                          | Inr enc \<Rightarrow>
                              (case write_frame bo enc (ch\<lparr>stdin := rest\<rparr>) of
                                 Inl e \<Rightarrow> Exit (Raised e) h1 w1 (ch\<lparr>stdin := rest\<rparr>)
                               | Inr ch3 \<Rightarrow> Next h1 w1 ch3))))"
    by blast
qed

theorem reads_have_no_cap_witness:
  "unpack_I LittleEndian [255, 255, 255, 255] = Inr 4294967295
   \<and> read_response LittleEndian
        (example_channel ([255, 255, 255, 255] @ replicate 4294967295 0 @ [9]))
       = (Inr (replicate 4294967295 0), example_channel [9])
   \<and> loop_turn verbose_lib LittleEndian init_host example_world
        (example_channel ([255, 255, 255, 255] @ replicate 4294967295 0 @ [9]))
       = Next init_host example_world
           \<lparr>stdin = [9], stdout = [5, 0, 0, 0, 101, 114, 114, 111, 114], stdout_open = True\<rparr>"
proof -
  let ?payload = "replicate 4294967295 (0::byte)"
  have l: "length [255, 255, 255, 255 :: byte] = 4" by simp
  have u: "unpack_I LittleEndian [255, 255, 255, 255] = Inr 4294967295"
    by (simp add: unpack_I_def)
  have n: "length ?payload < 2 ^ 32" by simp
  have p: "pack_I LittleEndian (length ?payload) = Inr [255, 255, 255, 255]"
    by (simp add: pack_I_def le_bytes_def byte_of_def)
  have d: "utf8_decode Strict ?payload = Inr (replicate 4294967295 0)"
    by (rule utf8_decode_replicate_0)
  have r: "respond verbose_lib init_host example_world (replicate 4294967295 0)
             = (error_response (ustr ''Invalid JSON format''), init_host, example_world)"
    by (simp add: respond_def nul_text_unknown)
  have j: "utf8_encode (json_dumps verbose_lib True
              (error_response (ustr ''Invalid JSON format'')))
             = Inr [101, 114, 114, 111, 114]"
    by (simp add: verbose_lib_def error_response_def ustr_def encode_cp_def byte_of_def)
  have w: "write_frame LittleEndian [101, 114, 114, 111, 114]
              ((example_channel [])\<lparr>stdin := [9]\<rparr>)
             = Inr \<lparr>stdin = [9], stdout = [5, 0, 0, 0, 101, 114, 114, 111, 114],
                    stdout_open = True\<rparr>"
    by (simp add: write_frame_def pack_I_def le_bytes_def byte_of_def example_channel_def)
  have c: "example_channel ([255, 255, 255, 255] @ ?payload @ [9])
             = (example_channel [])\<lparr>stdin := [255, 255, 255, 255] @ ?payload @ [9]\<rparr>"
    "example_channel [9] = (example_channel [])\<lparr>stdin := [9]\<rparr>"
    by (simp_all add: example_channel_def)
  from reads_have_no_cap [where pre = "[255, 255, 255, 255]" and bo = LittleEndian
      and payload = ?payload and ch = "example_channel []" and rest = "[9]"
      and L = verbose_lib and h = init_host and w = example_world]
  have "read_response LittleEndian
          ((example_channel [])\<lparr>stdin := [255, 255, 255, 255] @ ?payload @ [9]\<rparr>)
         = (Inr (replicate 4294967295 0), (example_channel [])\<lparr>stdin := [9]\<rparr>)
      \<and> loop_turn verbose_lib LittleEndian init_host example_world
          ((example_channel [])\<lparr>stdin := [255, 255, 255, 255] @ ?payload @ [9]\<rparr>)
         = Next init_host example_world
           \<lparr>stdin = [9], stdout = [5, 0, 0, 0, 101, 114, 114, 111, 114], stdout_open = True\<rparr>"
    using n by (simp only: p d r j w sum.inject sum.case prod.case simp_thms ex_simps
        HOL.simp_thms)
  with u show ?thesis by (simp only: c simp_thms)
qed

subsection \<open>Decoding with errors ignored\<close>

lemma byte_of_unat [simp]: "byte_of (unat b) = b"
  by (simp add: byte_of_def)












subsection \<open>The handlers of the HTTP requests\<close>













text \<open>
  C6 at a \<open>POST\<close> whose \<open>Content-Length\<close> header is not a number: \<open>int\<close> raises
  \<open>ValueError\<close> on line 47, before the \<open>try\<close>, so the handler ends with the exception
  and no response is written; nothing is sent to the extension either.
\<close>

theorem post_bad_content_length_escapes:
  "do_POST L bo \<lparr>path = ustr ''/v1/chat'',
                 headers = [(ustr ''Content-Length'', ustr ''abc'')],
                 rfile = []\<rparr> ch
     = (Inl ValueError, ch)"
  by (simp add: do_POST_def header_get_def py_int_def strip_def is_space_def ustr_def)

text \<open>
  The same for every request whose \<open>Content-Length\<close> cannot be parsed or cannot be read.
  \<open>DELETE\<close> reads nothing before its \<open>try\<close>.
\<close>

lemma post_failure_before_try:
  "(case header_get (headers req) (ustr ''Content-Length'') of
      None \<Rightarrow> Inr 0 | Some v \<Rightarrow> py_int v) = Inl e
   \<Longrightarrow> do_POST L bo req ch = (Inl e, ch)"
  "(case header_get (headers req) (ustr ''Content-Length'') of
      None \<Rightarrow> Inr 0 | Some v \<Rightarrow> py_int v) = Inr n
   \<Longrightarrow> rfile_read n (rfile req) = Inl e
   \<Longrightarrow> do_POST L bo req ch = (Inl e, ch)"
  by (simp_all add: do_POST_def)

text \<open>
  Where the handlers do reply: a failed exchange gives the 503 envelope, and the reply
  is the envelope's status and body, or 500 with the text of the exception raised
  while replying.
\<close>

lemma send_to_extension_cases:
  "(\<exists>e. fst (send_to_extension L bo data ch) = communication_error L e)
   \<or> (\<exists>s. json_loads L s = Inr (fst (send_to_extension L bo data ch)))"
  by (auto simp: send_to_extension_def split: sum.splits prod.splits)

lemma reply_envelope_communication_error:
  "reply_envelope L (communication_error L e)
     = send_json_response L (JInt 503)
         (JObj [(ustr ''error'',
                 JStr (ustr ''Extension communication error: '' @ str_exc L e))])"
  by (simp add: reply_envelope_def communication_error_def dict_get_def)

lemma reply_envelope_object:
  "reply_envelope L (JObj kvs)
     = send_json_response L
         (case map_of kvs (ustr ''status'') of Some v \<Rightarrow> v | None \<Rightarrow> JInt 200)
         (case map_of kvs (ustr ''body'') of Some v \<Rightarrow> v | None \<Rightarrow> JObj [])"
  by (simp add: reply_envelope_def dict_get_def split: option.splits)



text \<open>The reply to that request: the envelope \<open>{}\<close> of the peer gives 200 and \<open>{}\<close>.\<close>

lemma post_invalid_utf8_reply:
  "do_POST example_lib LittleEndian
      \<lparr>path = ustr ''/v1/chat'', headers = [(ustr ''content-length'', ustr ''3'')],
       rfile = [97, 255, 98, 99]\<rparr>
      (example_channel [2, 0, 0, 0, 123, 125])
   = (Inr \<lparr>status = 200,
           response_headers =
             [(ustr ''Content-Type'', ustr ''application/json; charset=utf-8'')]
             @ cors_headers @ [(ustr ''Content-Length'', ustr ''2'')],
           body = [123, 125]\<rparr>,
      \<lparr>stdin = [], stdout = [2, 0, 0, 0, 123, 125], stdout_open = True\<rparr>)"
  by (simp add: do_POST_def header_get_def lower_ascii_def py_int_def strip_def is_space_def
      rfile_read_def utf8_decode.simps send_to_extension_def request_envelope_def
      example_lib_def encode_cp_def byte_of_def write_frame_def pack_I_def le_bytes_def
      example_channel_def read_response_def read_bytes_def unpack_I_def
      reply_envelope_def dict_get_def send_json_response_def status_code_of_def
      decimal.simps ustr_def)

subsection \<open>Two readers\<close>

text \<open>
  A thread that runs alone does what the sequential functions say: three steps of the
  handler thread are \<open>send_to_extension\<close>, two steps of the main thread are one turn of
  the loop.
\<close>

lemma handler_alone:
  "run_threads L bo [HandlerThread, HandlerThread, HandlerThread]
      (s\<lparr>handler_at := AtSend data\<rparr>)
     = s\<lparr>chan := snd (send_to_extension L bo data (chan s)),
          handler_at := Returned (fst (send_to_extension L bo data (chan s)))\<rparr>"
  by (auto simp: handler_step_def send_to_extension_def read_response_def read_bytes_def
      split: sum.splits prod.splits if_splits)

lemma main_alone:
  "run_threads L bo [MainThread, MainThread] (s\<lparr>main_at := AtReadLength\<rparr>)
     = (case loop_turn L bo (main_host s) (os s) (chan s) of
          Next h1 w1 ch1 \<Rightarrow> s\<lparr>chan := ch1, main_at := AtReadLength, main_host := h1, os := w1\<rparr>
        | Exit x h1 w1 ch1 \<Rightarrow> s\<lparr>chan := ch1, main_at := LoopEnded x, main_host := h1, os := w1\<rparr>)"
  by (auto simp: main_step_def loop_turn_def read_bytes_def
      split: sum.splits prod.splits if_splits)

text \<open>
  C1 does not hold of the program.  A request arrives while the main thread waits for
  input, and the extension answers with one frame.  When the handler thread runs alone
  it gets the answer.  Under another schedule the main thread reads the answer and
  treats it as a control message (it replies \<open>unknown\<close> to the extension) while the
  handler thread, left with the end of the input, returns the 503 envelope.  Under a
  third, the main thread reads the length prefix and the handler thread the first four
  bytes of the payload as if they were a length: both threads are then in the middle of
  reading a frame on the same stream, the loop ends at its \<open>break\<close> and the handler
  returns the 503 envelope.
\<close>

theorem two_readers_race:
  "run_threads verbose_lib LittleEndian [HandlerThread, HandlerThread, HandlerThread]
      (request_arrives (JObj []) init_host example_world (example_channel [2, 0, 0, 0, 123, 125]))
     = \<lparr>chan = \<lparr>stdin = [], stdout = [4, 0, 0, 0, 110, 117, 108, 108], stdout_open = True\<rparr>,
        main_at = AtReadLength, main_host = init_host, os = example_world,
        handler_at = Returned (JObj [])\<rparr>
   \<and> run_threads verbose_lib LittleEndian [HandlerThread, MainThread, MainThread, HandlerThread]
      (request_arrives (JObj []) init_host example_world (example_channel [2, 0, 0, 0, 123, 125]))
     = \<lparr>chan = \<lparr>stdin = [],
                 stdout = [4, 0, 0, 0, 110, 117, 108, 108,
                           7, 0, 0, 0, 117, 110, 107, 110, 111, 119, 110],
                 stdout_open = True\<rparr>,
        main_at = AtReadLength, main_host = init_host, os = example_world,
        handler_at = Returned (communication_error verbose_lib
          (Exception (ustr ''Failed to read response length from extension'')))\<rparr>
   \<and> run_threads verbose_lib LittleEndian [HandlerThread, MainThread, HandlerThread]
      (request_arrives (JObj []) init_host example_world
         (example_channel [8, 0, 0, 0, 123, 34, 111, 107, 34, 58, 49, 125]))
     = \<lparr>chan = \<lparr>stdin = [34, 58, 49, 125], stdout = [4, 0, 0, 0, 110, 117, 108, 108],
                 stdout_open = True\<rparr>,
        main_at = AtReadContent 8, main_host = init_host, os = example_world,
        handler_at = AtResponseContent 1802445435\<rparr>
   \<and> run_threads verbose_lib LittleEndian
        [HandlerThread, MainThread, HandlerThread, MainThread, HandlerThread]
      (request_arrives (JObj []) init_host example_world
         (example_channel [8, 0, 0, 0, 123, 34, 111, 107, 34, 58, 49, 125]))
     = \<lparr>chan = \<lparr>stdin = [], stdout = [4, 0, 0, 0, 110, 117, 108, 108], stdout_open = True\<rparr>,
        main_at = LoopEnded Break, main_host = init_host, os = example_world,
        handler_at = Returned (communication_error verbose_lib
          (Exception (ustr ''Failed to read complete response from extension'')))\<rparr>"
proof -
  have d: "utf8_encode (json_dumps verbose_lib True (JObj [])) = Inr [110, 117, 108, 108]"
    by (simp add: verbose_lib_def example_lib_def ustr_def encode_cp_def byte_of_def)
  have l: "json_loads verbose_lib (ustr ''{}'') = Inr (JObj [])"
    by (simp add: verbose_lib_def example_lib_def)
  have r: "respond verbose_lib init_host example_world (ustr ''{}'')
             = (JObj [(ustr ''type'', JStr (ustr ''unknown'')),
                      (ustr ''error'', JStr (ustr ''Unknown message type: ''))],
                init_host, example_world)"
    by (simp add: respond_def l handle_message_def dict_get_def format_value_def)
  have u: "utf8_encode (json_dumps verbose_lib True
              (JObj [(ustr ''type'', JStr (ustr ''unknown'')),
                     (ustr ''error'', JStr (ustr ''Unknown message type: ''))]))
             = Inr [117, 110, 107, 110, 111, 119, 110]"
    by (simp add: verbose_lib_def ustr_def encode_cp_def byte_of_def)
  have t: "utf8_decode Strict [123, 125] = Inr (ustr ''{}'')"
    by (simp add: utf8_decode_ascii ustr_def)
  show ?thesis
    by (simp add: request_arrives_def handler_step_def main_step_def d l r u t
        write_frame_def pack_I_def le_bytes_def byte_of_def example_channel_def
        read_bytes_def unpack_I_def)
qed

end
